theory Spec2Isabelle
  imports Complex_Main "HOL-Library.Multiset"
begin

section \<open>Python strings\<close>

text \<open>
  A Python \<open>str\<close> is modelled as a \<open>string\<close> whose characters are the code points
  below 256. The helpers below are the \<open>str\<close> methods that \<open>app.py\<close> calls.
\<close>

definition startswith :: "string \<Rightarrow> string \<Rightarrow> bool" where
  "startswith s p = (take (length p) s = p)"

text \<open>\<open>str.isspace\<close> on one character: TAB, LF, VT, FF, CR, FS, GS, RS, US, space, NEL, NBSP.\<close>

definition py_isspace :: "char \<Rightarrow> bool" where
  "py_isspace c = (of_char c \<in> {9::nat, 10, 11, 12, 13, 28, 29, 30, 31, 32, 133, 160})"

definition py_strip :: "string \<Rightarrow> string" where
  "py_strip s = rev (dropWhile py_isspace (rev (dropWhile py_isspace s)))"

text \<open>\<open>s.replace(old, new)\<close>: every non-overlapping occurrence, scanning from the left.\<close>

function py_replace :: "string \<Rightarrow> string \<Rightarrow> string \<Rightarrow> string" where
  "py_replace [] old new = (if old = [] then new else [])"
| "py_replace (c # cs) old new =
     (if old = [] then new @ c # py_replace cs old new
      else if startswith (c # cs) old
        then new @ py_replace (drop (length old) (c # cs)) old new
      else c # py_replace cs old new)"
  by pat_completeness auto
termination
  by (relation "measure (\<lambda>(s, old, new). length s)") auto

text \<open>Decimal digits of a natural number, and \<open>'%0<w>d' % n\<close> for \<open>n \<ge> 0\<close>.\<close>

definition digit_char :: "nat \<Rightarrow> char" where
  "digit_char d = ''0123456789'' ! (d mod 10)"

fun str_nat :: "nat \<Rightarrow> string" where
  "str_nat n = (if n < 10 then [digit_char n] else str_nat (n div 10) @ [digit_char (n mod 10)])"

declare str_nat.simps [simp del]

definition fmt_0d :: "nat \<Rightarrow> nat \<Rightarrow> string" where
  "fmt_0d w n = replicate (w - length (str_nat n)) CHR ''0'' @ str_nat n"

section \<open>datetime\<close>

text \<open>
  \<open>timezone.utc\<close> is the only \<open>tzinfo\<close> object the program ever attaches to a
  \<open>datetime\<close>; a naive \<open>datetime\<close> has \<open>tzinfo = None\<close>. The wall-clock fields
  (year .. microsecond) are held as one number, the microseconds since
  0001-01-01T00:00:00, which is \<open>datetime.min\<close>.
\<close>

datatype tzinfo = UTC

record datetime =
  ticks :: nat
  tzinfo :: "tzinfo option"

definition US_PER_SECOND :: nat where "US_PER_SECOND = 1000000"
definition US_PER_MINUTE :: nat where "US_PER_MINUTE = 60000000"
definition US_PER_HOUR :: nat where "US_PER_HOUR = 3600000000"
definition US_PER_DAY :: nat where "US_PER_DAY = 86400000000"

text \<open>\<open>date.max.toordinal()\<close>, the number of days from 0001-01-01 to 9999-12-31.\<close>

definition MAXORDINAL :: nat where "MAXORDINAL = 3652059"

definition datetime_in_range :: "nat \<Rightarrow> bool" where
  "datetime_in_range t = (t < MAXORDINAL * US_PER_DAY)"

text \<open>\<open>dt.replace(tzinfo=timezone.utc)\<close> keeps the wall-clock fields.\<close>

definition replace_tzinfo :: "datetime \<Rightarrow> tzinfo option \<Rightarrow> datetime" where
  "replace_tzinfo dt tz = dt\<lparr>tzinfo := tz\<rparr>"

text \<open>
  \<open>dt.astimezone(timezone.utc)\<close> on an aware \<open>datetime\<close> whose zone is already UTC
  changes nothing. (On a naive one Python assumes local time; \<open>to_iso_z\<close> never calls it
  on a naive value.)
\<close>

definition astimezone_utc :: "datetime \<Rightarrow> datetime" where
  "astimezone_utc dt = dt\<lparr>tzinfo := Some UTC\<rparr>"

text \<open>The proleptic Gregorian calendar of CPython's \<open>datetime\<close> module (\<open>_ord2ymd\<close>).\<close>

definition DAYS_IN_MONTH :: "nat list" where
  "DAYS_IN_MONTH = [0, 31, 28, 31, 30, 31, 30, 31, 31, 30, 31, 30, 31]"

definition DAYS_BEFORE_MONTH :: "nat list" where
  "DAYS_BEFORE_MONTH = [0, 0, 31, 59, 90, 120, 151, 181, 212, 243, 273, 304, 334]"

definition ord2ymd :: "nat \<Rightarrow> nat \<times> nat \<times> nat" where
  "ord2ymd ordinal =
     (let n = ordinal - 1;
          n400 = n div 146097; n = n mod 146097;
          n100 = n div 36524; n = n mod 36524;
          n4 = n div 1461; n = n mod 1461;
          n1 = n div 365; n = n mod 365;
          year = n400 * 400 + 1 + n100 * 100 + n4 * 4 + n1
      in if n1 = 4 \<or> n100 = 4 then (year - 1, 12, 31)
         else
           let leapyear = (n1 = 3 \<and> (n4 \<noteq> 24 \<or> n100 = 3));
               month = (n + 50) div 32;
               preceding = DAYS_BEFORE_MONTH ! month + (if month > 2 \<and> leapyear then 1 else 0)
           in if preceding > n
              then let month' = month - 1;
                       preceding' = preceding -
                         (DAYS_IN_MONTH ! month' + (if month' = 2 \<and> leapyear then 1 else 0))
                   in (year, month', n - preceding' + 1)
              else (year, month, n - preceding + 1))"

text \<open>
  \<open>dt.isoformat()\<close>: \<open>YYYY-MM-DDTHH:MM:SS\<close>, then \<open>.ffffff\<close> when the microsecond is
  not zero, then the UTC offset \<open>+00:00\<close> when the value is aware.
\<close>

definition isoformat_fields :: "nat \<Rightarrow> string" where
  "isoformat_fields t =
     (let (y, m, d) = ord2ymd (t div US_PER_DAY + 1);
          r = t mod US_PER_DAY;
          hh = r div US_PER_HOUR;
          mm = (r div US_PER_MINUTE) mod 60;
          ss = (r div US_PER_SECOND) mod 60;
          us = r mod US_PER_SECOND
      in fmt_0d 4 y @ ''-'' @ fmt_0d 2 m @ ''-'' @ fmt_0d 2 d @ ''T'' @
         fmt_0d 2 hh @ '':'' @ fmt_0d 2 mm @ '':'' @ fmt_0d 2 ss @
         (if us \<noteq> 0 then ''.'' @ fmt_0d 6 us else []))"

definition isoformat :: "datetime \<Rightarrow> string" where
  "isoformat dt =
     isoformat_fields (ticks dt) @ (case tzinfo dt of None \<Rightarrow> [] | Some UTC \<Rightarrow> ''+00:00'')"

text \<open>\<open>to_iso_z\<close> (app.py, lines 112-116).\<close>

definition to_iso_z :: "datetime \<Rightarrow> string" where
  "to_iso_z dt =
     (let dt = (if tzinfo dt = None then replace_tzinfo dt (Some UTC) else dt)
      in py_replace (isoformat (astimezone_utc dt)) ''+00:00'' ''Z'')"

text \<open>
  Ordering comparison of two \<open>datetime\<close> values: Python raises \<open>TypeError\<close>
  ("can't compare offset-naive and offset-aware datetimes") when exactly one of them carries
  a \<open>tzinfo\<close>.
\<close>

datatype exn = TypeError | ValueError | OverflowError | AttributeError
  | IntegrityError | OperationalError

definition datetime_gt :: "datetime \<Rightarrow> datetime \<Rightarrow> exn + bool" where
  "datetime_gt a b =
     (case (tzinfo a, tzinfo b) of
        (None, None) \<Rightarrow> Inr (ticks a > ticks b)
      | (Some UTC, Some UTC) \<Rightarrow> Inr (ticks a > ticks b)
      | _ \<Rightarrow> Inl TypeError)"

text \<open>
  \<open>timedelta(minutes=v)\<close>, as a signed number of microseconds; a \<open>timedelta\<close> holds at
  most 999999999 days. \<open>dt + td\<close> raises \<open>OverflowError\<close> outside year 1 .. 9999.
\<close>

definition timedelta_minutes :: "int \<Rightarrow> exn + int" where
  "timedelta_minutes v =
     (if v div 1440 > 999999999 \<or> v div 1440 < - 999999999 then Inl OverflowError
      else Inr (v * int US_PER_MINUTE))"

definition datetime_add :: "datetime \<Rightarrow> int \<Rightarrow> exn + datetime" where
  "datetime_add dt td =
     (let t = int (ticks dt) + td
      in if t < 0 \<or> \<not> datetime_in_range (nat t) then Inl OverflowError
         else Inr (dt\<lparr>ticks := nat t\<rparr>))"

section \<open>JSON values and Python's coercions\<close>

text \<open>
  What \<open>request.get_json\<close> returns. A finite \<open>float\<close> is a rational number; an object is
  the item list of the parsed \<open>dict\<close> (its keys are distinct).
\<close>

datatype pyfloat = Finite rat | NaN | PosInf | NegInf

datatype json = JNull | JBool bool | JInt int | JFloat pyfloat | JStr string
  | JArr "json list" | JObj "(string \<times> json) list"

text \<open>Truth value of a Python object (\<open>if x:\<close>).\<close>

fun truthy :: "json \<Rightarrow> bool" where
  "truthy JNull = False"
| "truthy (JBool b) = b"
| "truthy (JInt i) = (i \<noteq> 0)"
| "truthy (JFloat (Finite q)) = (q \<noteq> 0)"
| "truthy (JFloat _) = True"
| "truthy (JStr s) = (s \<noteq> [])"
| "truthy (JArr xs) = (xs \<noteq> [])"
| "truthy (JObj kvs) = (kvs \<noteq> [])"

definition is_digit :: "char \<Rightarrow> bool" where
  "is_digit c = (48 \<le> (of_char c :: nat) \<and> (of_char c :: nat) \<le> 57)"

definition is_alnum :: "char \<Rightarrow> bool" where
  "is_alnum c =
     (let n = (of_char c :: nat)
      in (48 \<le> n \<and> n \<le> 57) \<or> (65 \<le> n \<and> n \<le> 90) \<or> (97 \<le> n \<and> n \<le> 122))"

text \<open>
  \<open>int(s)\<close> on a \<open>str\<close>: surrounding whitespace is dropped, one sign is allowed, then
  decimal digits with single underscores between them; more than 4300 digits are refused.
  The whitespace that \<open>int\<close> skips is not that of \<open>str.strip\<close>: TAB, LF, VT, FF, CR,
  space, NEL and NBSP, but not FS, GS, RS, US (\<open>int('5\x1f')\<close> raises \<open>ValueError\<close>).
\<close>

definition int_isspace :: "char \<Rightarrow> bool" where
  "int_isspace c = (of_char c \<in> {9::nat, 10, 11, 12, 13, 32, 133, 160})"

definition int_strip :: "string \<Rightarrow> string" where
  "int_strip s = rev (dropWhile int_isspace (rev (dropWhile int_isspace s)))"

fun digits_ok :: "string \<Rightarrow> bool" where
  "digits_ok [] = False"
| "digits_ok [c] = is_digit c"
| "digits_ok (c # u # cs) =
     (is_digit c \<and> (if u = CHR ''_'' then digits_ok cs else digits_ok (u # cs)))"

definition digits_value :: "string \<Rightarrow> int" where
  "digits_value s = foldl (\<lambda>a c. 10 * a + (int (of_char c) - 48)) 0 (filter is_digit s)"

definition int_of_str :: "string \<Rightarrow> exn + int" where
  "int_of_str s =
     (let t = int_strip s;
          (sgn, body) = (case t of
                           c # r \<Rightarrow> if c = CHR ''-'' then (- 1, r)
                                    else if c = CHR ''+'' then (1, r) else (1, t)
                         | [] \<Rightarrow> (1, t))
      in if \<not> digits_ok body \<or> length (filter is_digit body) > 4300 then Inl ValueError
         else Inr (sgn * digits_value body))"

text \<open>\<open>int(x)\<close> on a JSON value.\<close>

fun py_int :: "json \<Rightarrow> exn + int" where
  "py_int JNull = Inl TypeError"
| "py_int (JBool b) = Inr (if b then 1 else 0)"
| "py_int (JInt i) = Inr i"
| "py_int (JFloat (Finite q)) = Inr (if 0 \<le> q then \<lfloor>q\<rfloor> else \<lceil>q\<rceil>)"
| "py_int (JFloat NaN) = Inl ValueError"
| "py_int (JFloat PosInf) = Inl OverflowError"
| "py_int (JFloat NegInf) = Inl OverflowError"
| "py_int (JStr s) = int_of_str s"
| "py_int (JArr xs) = Inl TypeError"
| "py_int (JObj kvs) = Inl TypeError"

definition str_int :: "int \<Rightarrow> string" where
  "str_int i = (if i < 0 then ''-'' @ str_nat (nat (- i)) else str_nat (nat i))"

text \<open>
  \<open>str(x)\<close> on a JSON value. The text of a \<open>float\<close>, a \<open>list\<close> or a \<open>dict\<close> is not
  modelled (\<open>None\<close>): it always holds a character outside \<open>A-Za-z0-9\<close> (a point, a
  signed exponent, a minus sign, a bracket or a brace) or is \<open>inf\<close> or \<open>nan\<close>, three
  characters, so that \<open>SHORTCODE_RE\<close> never matches it, stripped or not.
\<close>

fun py_str :: "json \<Rightarrow> string option" where
  "py_str JNull = Some ''None''"
| "py_str (JBool b) = Some (if b then ''True'' else ''False'')"
| "py_str (JInt i) = Some (str_int i)"
| "py_str (JStr s) = Some s"
| "py_str (JFloat f) = None"
| "py_str (JArr xs) = None"
| "py_str (JObj kvs) = None"

text \<open>\<open>data.get(key)\<close> and \<open>data.get(key, default)\<close> on the parsed \<open>dict\<close>.\<close>

definition dict_get :: "(string \<times> json) list \<Rightarrow> string \<Rightarrow> json option" where
  "dict_get kvs k = map_of kvs k"

definition dict_get_default :: "(string \<times> json) list \<Rightarrow> string \<Rightarrow> json \<Rightarrow> json" where
  "dict_get_default kvs k dflt = (case map_of kvs k of None \<Rightarrow> dflt | Some v \<Rightarrow> v)"

text \<open>\<open>a or b\<close> on optional strings: \<open>None\<close> and the empty string are false.\<close>

definition py_or :: "string option \<Rightarrow> string option \<Rightarrow> string option" where
  "py_or a b = (case a of Some (c # cs) \<Rightarrow> a | _ \<Rightarrow> b)"

section \<open>The store\<close>

text \<open>
  The two tables of \<open>app.py\<close> (lines 31-48), each as the list of its rows in insertion
  order. \<open>shortcode\<close> of a \<open>ShortURL\<close> is declared \<open>unique=True\<close>.
\<close>

record ShortURL =
  shortcode :: string
  original_url :: string
  created_at :: datetime
  expiry :: datetime

record Click =
  click_shortcode :: string
  timestamp :: datetime
  referrer :: "string option"
  location :: "string option"
  ip :: "string option"
  user_agent :: "string option"

record database =
  shorturls :: "ShortURL list"
  clicks :: "Click list"

text \<open>
  The columns \<open>created_at\<close>, \<open>expiry\<close> and \<open>timestamp\<close> are declared \<open>db.DateTime\<close>,
  that is without \<open>timezone=True\<close>, on an SQLite file (line 24): the column keeps the
  wall-clock fields and no zone, so a value read back is naive. \<open>to_iso_z\<close> handles exactly
  this (\<open>if dt.tzinfo is None\<close>).
\<close>

definition DateTime_column :: "datetime \<Rightarrow> datetime" where
  "DateTime_column dt = dt\<lparr>tzinfo := None\<rparr>"

definition stored_shorturl :: "ShortURL \<Rightarrow> ShortURL" where
  "stored_shorturl r =
     r\<lparr>created_at := DateTime_column (created_at r), expiry := DateTime_column (expiry r)\<rparr>"

definition stored_click :: "Click \<Rightarrow> Click" where
  "stored_click c = c\<lparr>timestamp := DateTime_column (timestamp c)\<rparr>"

text \<open>\<open>ShortURL.query.filter_by(shortcode=sc).first()\<close>\<close>

definition query_shorturl :: "database \<Rightarrow> string \<Rightarrow> ShortURL option" where
  "query_shorturl d sc = find (\<lambda>r. shortcode r = sc) (shorturls d)"

text \<open>
  \<open>db.session.add(row); db.session.commit()\<close>. \<open>fault\<close> is a failure of the store
  itself; a second row with a shortcode already in the table violates the uniqueness
  constraint. Either way nothing is written.
\<close>

definition commit_shorturl :: "bool \<Rightarrow> database \<Rightarrow> ShortURL \<Rightarrow> exn + database" where
  "commit_shorturl fault d row =
     (if fault then Inl OperationalError
      else if query_shorturl d (shortcode row) \<noteq> None then Inl IntegrityError
      else Inr (d\<lparr>shorturls := shorturls d @ [stored_shorturl row]\<rparr>))"

definition commit_click :: "bool \<Rightarrow> database \<Rightarrow> Click \<Rightarrow> exn + database" where
  "commit_click fault d c =
     (if fault then Inl OperationalError
      else Inr (d\<lparr>clicks := clicks d @ [stored_click c]\<rparr>))"

text \<open>
  Rows that other requests commit between this request's existence check and its own
  commit; one that loses its own race is dropped.
\<close>

fun concurrent_commits :: "ShortURL list \<Rightarrow> database \<Rightarrow> database" where
  "concurrent_commits [] d = d"
| "concurrent_commits (r # rs) d =
     concurrent_commits rs (case commit_shorturl False d r of Inr d' \<Rightarrow> d' | Inl e \<Rightarrow> d)"

section \<open>The request environment and the responses\<close>

text \<open>
  Everything a handler reads besides the store and the request body: the random source
  (the i-th random index), the clock (\<open>datetime.utcnow()\<close>, in microseconds since
  \<open>datetime.min\<close>), the rows committed concurrently, whether the store fails at this
  request's commit, the request headers and the peer address.
\<close>

record env =
  rand :: "nat \<Rightarrow> nat"
  utcnow :: nat
  concurrent :: "ShortURL list"
  commit_fault :: bool
  headers :: "string \<Rightarrow> string option"
  remote_addr :: "string option"

text \<open>
  The messages of the \<open>{"error": ...}\<close> bodies, in the order of app.py: lines 140, 144,
  153, 159, 163, 180, 193, 196, 211 and 241, 245, 290.
\<close>

datatype message =
    Missing_JSON_body
  | Invalid_or_missing_url
  | Validity_must_be_a_positive_integer
  | Provided_shortcode_invalid
  | Shortcode_already_in_use
  | Could_not_generate_a_unique_shortcode
  | Shortcode_collision_occurred
  | Internal_server_error_creating_shortcode
  | Shortcode_not_found
  | Shortlink_expired
  | Internal_server_error

record click_entry =
  entry_timestamp :: string
  entry_referrer :: "string option"
  entry_location :: string
  entry_ip :: "string option"
  entry_user_agent :: "string option"

text \<open>
  \<open>ErrorJson status message\<close>; \<open>Created shortLink expiry\<close> is the 201 body;
  \<open>Stats clicks originalURL createdAt expiry clickData\<close> the 200 body;
  \<open>Redirect url\<close> the 302.
\<close>

datatype response =
    ErrorJson nat message
  | Created string string
  | Stats nat string string string "click_entry list"
  | Redirect string

fun status :: "response \<Rightarrow> nat" where
  "status (ErrorJson n m) = n"
| "status (Created l e) = 201"
| "status (Stats n u c e cs) = 200"
| "status (Redirect u) = 302"

text \<open>An exception that no handler catches reaches Flask's 500 handler (lines 288-290).\<close>

definition unhandled :: "exn \<Rightarrow> response" where
  "unhandled e = ErrorJson 500 Internal_server_error"

section \<open>Helpers of app.py (lines 102-123)\<close>

definition HOSTNAME :: string where
  "HOSTNAME = ''http://localhost:5000''"

definition rstrip_chars :: "string \<Rightarrow> string \<Rightarrow> string" where
  "rstrip_chars s cs = rev (dropWhile (\<lambda>c. c \<in> set cs) (rev s))"

definition ALPHABET :: string where
  "ALPHABET = ''abcdefghijklmnopqrstuvwxyzABCDEFGHIJKLMNOPQRSTUVWXYZ0123456789''"

text \<open>
  \<open>SHORTCODE_RE.match(s)\<close> for \<open>^[A-Za-z0-9]{4,64}$\<close>: between 4 and 64 alphanumeric
  characters; \<open>$\<close> also matches just before one line feed that ends the string.
\<close>

definition alnum_4_64 :: "string \<Rightarrow> bool" where
  "alnum_4_64 s = (4 \<le> length s \<and> length s \<le> 64 \<and> list_all is_alnum s)"

definition SHORTCODE_RE_match :: "string \<Rightarrow> bool" where
  "SHORTCODE_RE_match s =
     (alnum_4_64 s \<or> (s \<noteq> [] \<and> last s = CHR 0x0A \<and> alnum_4_64 (butlast s)))"

text \<open>
  \<open>generate_shortcode(length)\<close>: \<open>random.choices(ALPHABET, k=length)\<close> takes the next
  \<open>length\<close> random indices; the second component is the position in the random source
  after the draw.
\<close>

definition generate_shortcode :: "(nat \<Rightarrow> nat) \<Rightarrow> nat \<Rightarrow> nat \<Rightarrow> string \<times> nat" where
  "generate_shortcode rnd pos len =
     (map (\<lambda>i. ALPHABET ! (rnd (pos + i) mod length ALPHABET)) [0..<len], pos + len)"

definition now_utc :: "env \<Rightarrow> datetime" where
  "now_utc e = replace_tzinfo \<lparr>ticks = utcnow e, tzinfo = None\<rparr> (Some UTC)"

definition validate_url :: "json \<Rightarrow> bool" where
  "validate_url url =
     (case url of
        JStr u \<Rightarrow> (let u = py_strip u in startswith u ''http://'' \<or> startswith u ''https://'')
      | _ \<Rightarrow> False)"

section \<open>POST /shorturls: create_shorturl (lines 128-202)\<close>

text \<open>Lines 146-153: the validity in minutes, or the exception that the \<open>try\<close> catches.\<close>

definition parse_validity :: "(string \<times> json) list \<Rightarrow> exn + int" where
  "parse_validity data =
     (case py_int (dict_get_default data ''validity'' (JInt 30)) of
        Inl e \<Rightarrow> Inl e
      | Inr validity \<Rightarrow> if validity \<le> 0 then Inl ValueError else Inr validity)"

text \<open>
  Lines 168-175: the inner loop makes up to \<open>n\<close> draws of one length and stops at the
  first candidate that is not in the table; the outer loop goes through the lengths and
  stops as soon as \<open>shortcode\<close> is set. A candidate has at least 6 characters, so
  \<open>if shortcode\<close> holds exactly when one was found.
\<close>

fun try_length :: "(nat \<Rightarrow> nat) \<Rightarrow> database \<Rightarrow> nat \<Rightarrow> nat \<Rightarrow> nat \<Rightarrow> string option \<times> nat" where
  "try_length rnd d attempt_len 0 pos = (None, pos)"
| "try_length rnd d attempt_len (Suc n) pos =
     (let (candidate, pos') = generate_shortcode rnd pos attempt_len
      in if query_shorturl d candidate = None then (Some candidate, pos')
         else try_length rnd d attempt_len n pos')"

fun try_lengths :: "(nat \<Rightarrow> nat) \<Rightarrow> database \<Rightarrow> nat list \<Rightarrow> nat \<Rightarrow> string option \<times> nat" where
  "try_lengths rnd d [] pos = (None, pos)"
| "try_lengths rnd d (attempt_len # lens) pos =
     (case try_length rnd d attempt_len 6 pos of
        (Some sc, pos') \<Rightarrow> (Some sc, pos')
      | (None, pos') \<Rightarrow> try_lengths rnd d lens pos')"

text \<open>Lines 166-181: the generated shortcode, or the 500 response, and the draws used.\<close>

definition allocate_shortcode :: "(nat \<Rightarrow> nat) \<Rightarrow> database \<Rightarrow> nat \<Rightarrow> (response + string) \<times> nat" where
  "allocate_shortcode rnd d pos =
     (case try_lengths rnd d [6, 7, 8] pos of
        (Some sc, pos') \<Rightarrow> (Inr sc, pos')
      | (None, pos') \<Rightarrow>
          (let (candidate, pos'') = generate_shortcode rnd pos' 10
           in if query_shorturl d candidate \<noteq> None
              then (Inl (ErrorJson 500 Could_not_generate_a_unique_shortcode), pos'')
              else (Inr candidate, pos'')))"

text \<open>Lines 155-181: the shortcode of the new link, or the response that ends the request.\<close>

definition resolve_shortcode :: "env \<Rightarrow> database \<Rightarrow> (string \<times> json) list \<Rightarrow> response + string" where
  "resolve_shortcode e d data =
     (case dict_get data ''shortcode'' of
        None \<Rightarrow> fst (allocate_shortcode (rand e) d 0)
      | Some custom_shortcode \<Rightarrow>
          if truthy custom_shortcode then
            (case py_str custom_shortcode of
               None \<Rightarrow> Inl (ErrorJson 400 Provided_shortcode_invalid)
             | Some s \<Rightarrow>
                 (let custom_shortcode = py_strip s
                  in if \<not> SHORTCODE_RE_match custom_shortcode
                       then Inl (ErrorJson 400 Provided_shortcode_invalid)
                     else if query_shorturl d custom_shortcode \<noteq> None
                       then Inl (ErrorJson 409 Shortcode_already_in_use)
                     else Inr custom_shortcode))
          else fst (allocate_shortcode (rand e) d 0))"

text \<open>
  Lines 183-202: the expiry and the insert. The two \<open>datetime\<close> computations are outside
  every \<open>try\<close>. The commit meets the table as the concurrent requests have left it.
\<close>

definition insert_shorturl ::
  "env \<Rightarrow> database \<Rightarrow> string \<Rightarrow> string \<Rightarrow> int \<Rightarrow> response \<times> database" where
  "insert_shorturl e d sc url validity =
     (let created = replace_tzinfo \<lparr>ticks = utcnow e, tzinfo = None\<rparr> (Some UTC)
      in case timedelta_minutes validity of
           Inl x \<Rightarrow> (unhandled x, d)
         | Inr td \<Rightarrow>
             (case datetime_add created td of
                Inl x \<Rightarrow> (unhandled x, d)
              | Inr expires \<Rightarrow>
                  (let short = \<lparr>shortcode = sc, original_url = url,
                                created_at = created, expiry = expires\<rparr>;
                       d = concurrent_commits (concurrent e) d
                   in case commit_shorturl (commit_fault e) d short of
                        Inl IntegrityError \<Rightarrow> (ErrorJson 409 Shortcode_collision_occurred, d)
                      | Inl x \<Rightarrow> (ErrorJson 500 Internal_server_error_creating_shortcode, d)
                      | Inr d' \<Rightarrow>
                          (Created (rstrip_chars HOSTNAME ''/'' @ ''/'' @ sc) (to_iso_z expires),
                           d'))))"

text \<open>
  The handler. \<open>body\<close> is what \<open>request.get_json(force=True, silent=True)\<close> returns:
  \<open>None\<close> when the body is not JSON. A true value that is not a \<open>dict\<close> has no
  \<open>get\<close>: \<open>AttributeError\<close>, caught by nobody.
\<close>

definition create_shorturl :: "env \<Rightarrow> database \<Rightarrow> json option \<Rightarrow> response \<times> database" where
  "create_shorturl e d body =
     (case body of
        None \<Rightarrow> (ErrorJson 400 Missing_JSON_body, d)
      | Some j \<Rightarrow>
          if \<not> truthy j then (ErrorJson 400 Missing_JSON_body, d)
          else
            (case j of
               JObj data \<Rightarrow>
                 (case dict_get data ''url'' of
                    None \<Rightarrow> (ErrorJson 400 Invalid_or_missing_url, d)
                  | Some url \<Rightarrow>
                      if \<not> truthy url \<or> \<not> validate_url url
                        then (ErrorJson 400 Invalid_or_missing_url, d)
                      else
                        (case parse_validity data of
                           Inl x \<Rightarrow> (ErrorJson 400 Validity_must_be_a_positive_integer, d)
                         | Inr validity \<Rightarrow>
                             (case resolve_shortcode e d data of
                                Inl r \<Rightarrow> (r, d)
                              | Inr sc \<Rightarrow>
                                  insert_shorturl e d sc
                                    (case url of JStr u \<Rightarrow> u | _ \<Rightarrow> []) validity)))
             | _ \<Rightarrow> (unhandled AttributeError, d)))"

section \<open>GET /shorturls/<shortcode>: get_shorturl_stats (lines 207-231)\<close>

text \<open>
  \<open>Click.query.filter_by(shortcode=sc).order_by(Click.timestamp.asc()).all()\<close>: the rows
  of the shortcode, by stored timestamp.
\<close>

definition query_clicks :: "database \<Rightarrow> string \<Rightarrow> Click list" where
  "query_clicks d sc =
     sort_key (\<lambda>c. ticks (timestamp c)) (filter (\<lambda>c. click_shortcode c = sc) (clicks d))"

definition click_json :: "Click \<Rightarrow> click_entry" where
  "click_json c =
     \<lparr>entry_timestamp = to_iso_z (timestamp c),
      entry_referrer = referrer c,
      entry_location = (case py_or (location c) (Some ''unknown'') of Some l \<Rightarrow> l | None \<Rightarrow> []),
      entry_ip = ip c,
      entry_user_agent = user_agent c\<rparr>"

definition get_shorturl_stats :: "database \<Rightarrow> string \<Rightarrow> response" where
  "get_shorturl_stats d sc =
     (case query_shorturl d sc of
        None \<Rightarrow> ErrorJson 404 Shortcode_not_found
      | Some s \<Rightarrow>
          (let clicks_q = query_clicks d sc;
               click_list = map click_json clicks_q
           in Stats (length click_list) (original_url s)
                (to_iso_z (created_at s)) (to_iso_z (expiry s)) click_list))"

section \<open>GET /<shortcode>: redirect_to_original (lines 237-271)\<close>

definition redirect_to_original :: "env \<Rightarrow> database \<Rightarrow> string \<Rightarrow> response \<times> database" where
  "redirect_to_original e d sc =
     (case query_shorturl d sc of
        None \<Rightarrow> (ErrorJson 404 Shortcode_not_found, d)
      | Some s \<Rightarrow>
          (let now = replace_tzinfo \<lparr>ticks = utcnow e, tzinfo = None\<rparr> (Some UTC)
           in case datetime_gt now (expiry s) of
                Inl x \<Rightarrow> (unhandled x, d)
              | Inr True \<Rightarrow> (ErrorJson 410 Shortlink_expired, d)
              | Inr False \<Rightarrow>
                  (let click = \<lparr>click_shortcode = sc, timestamp = now,
                                referrer = py_or (headers e ''Referer'') (headers e ''Referrer''),
                                location = Some ''unknown'',
                                ip = (case headers e ''X-Forwarded-For'' of
                                        Some a \<Rightarrow> Some a | None \<Rightarrow> remote_addr e),
                                user_agent = headers e ''User-Agent''\<rparr>
                   in (Redirect (original_url s),
                       case commit_click (commit_fault e) d click of
                         Inr d' \<Rightarrow> d' | Inl x \<Rightarrow> d))))"

section \<open>Timestamps of a response, and example requests\<close>

text \<open>Every timestamp that a response body carries.\<close>

fun response_timestamps :: "response \<Rightarrow> string list" where
  "response_timestamps (ErrorJson n m) = []"
| "response_timestamps (Created l e) = [e]"
| "response_timestamps (Stats n u c e cs) = c # e # map entry_timestamp cs"
| "response_timestamps (Redirect u) = []"

text \<open>
  A request environment at 2025-11-29T08:00:00 UTC with no concurrent writer and no
  failing store, the empty store, and the store after
  \<open>POST /shorturls {"url": "https://example.com", "shortcode": "abcd1"}\<close>.
\<close>

definition example_env :: env where
  "example_env = \<lparr>rand = (\<lambda>i. i), utcnow = 63900000000000000, concurrent = [],
     commit_fault = False, headers = (\<lambda>h. None), remote_addr = None\<rparr>"

definition empty_db :: database where
  "empty_db = \<lparr>shorturls = [], clicks = []\<rparr>"

definition example_body :: "json option" where
  "example_body =
     Some (JObj [(''url'', JStr ''https://example.com''), (''shortcode'', JStr ''abcd1'')])"

definition example_db :: database where
  "example_db =
     \<lparr>shorturls = [\<lparr>shortcode = ''abcd1'', original_url = ''https://example.com'',
         created_at = \<lparr>ticks = 63900000000000000, tzinfo = None\<rparr>,
         expiry = \<lparr>ticks = 63900001800000000, tzinfo = None\<rparr>\<rparr>],
      clicks = []\<rparr>"

text \<open>
  The row that insert_shorturl writes for a validity of \<open>v\<close> minutes, as the store
  gives it back, and the condition under which \<open>timedelta(minutes=v)\<close> and
  \<open>created_at + timedelta\<close> raise nothing.
\<close>

definition new_row :: "env \<Rightarrow> string \<Rightarrow> string \<Rightarrow> int \<Rightarrow> ShortURL" where
  "new_row e sc u v =
     \<lparr>shortcode = sc, original_url = u,
      created_at = \<lparr>ticks = utcnow e, tzinfo = None\<rparr>,
      expiry = \<lparr>ticks = utcnow e + nat v * US_PER_MINUTE, tzinfo = None\<rparr>\<rparr>"

definition expiry_in_range :: "env \<Rightarrow> int \<Rightarrow> bool" where
  "expiry_in_range e v =
     (v div 1440 \<le> 999999999 \<and> datetime_in_range (utcnow e + nat v * US_PER_MINUTE))"

text \<open>
  The same request while another request commits a row for \<open>abcd1\<close> between the
  existence check and the commit, and the parsed body of the example request.
\<close>

definition racing_env :: env where
  "racing_env = example_env\<lparr>concurrent :=
     [\<lparr>shortcode = ''abcd1'', original_url = ''https://other.example'',
       created_at = \<lparr>ticks = 63900000000000000, tzinfo = Some UTC\<rparr>,
       expiry = \<lparr>ticks = 63900000600000000, tzinfo = Some UTC\<rparr>\<rparr>]\<rparr>"

definition example_data :: "(string \<times> json) list" where
  "example_data = [(''url'', JStr ''https://example.com''), (''shortcode'', JStr ''abcd1'')]"

text \<open>The body \<open>{"url": "https://example.com", "validity": 2.5, "shortcode": "abcd1"}\<close>.\<close>

definition fractional_body :: "json option" where
  "fractional_body =
     Some (JObj [(''url'', JStr ''https://example.com''), (''validity'', JFloat (Finite (5 / 2))),
                 (''shortcode'', JStr ''abcd1'')])"

text \<open>
  The example store with three recorded clicks, two of them for \<open>abcd1\<close>, the later
  one inserted first.
\<close>

definition clicked_db :: database where
  "clicked_db = example_db\<lparr>clicks :=
     [\<lparr>click_shortcode = ''abcd1'', timestamp = \<lparr>ticks = 63900000120000000, tzinfo = None\<rparr>,
       referrer = None, location = Some ''unknown'', ip = Some ''10.0.0.2'', user_agent = None\<rparr>,
      \<lparr>click_shortcode = ''zzzz9'', timestamp = \<lparr>ticks = 63900000000000000, tzinfo = None\<rparr>,
       referrer = None, location = Some ''unknown'', ip = Some ''10.0.0.3'', user_agent = None\<rparr>,
      \<lparr>click_shortcode = ''abcd1'', timestamp = \<lparr>ticks = 63900000000000000, tzinfo = None\<rparr>,
       referrer = None, location = None, ip = Some ''10.0.0.1'', user_agent = None\<rparr>]\<rparr>"

section \<open>The allocation protocol as the specification words it\<close>

text \<open>
  Section 4.2 of the specification: go through the draws one after the other, check the
  store after each draw, return the first candidate found unoccupied and draw no more.
  \<open>first_free\<close> does this for a list of lengths, one draw per length.
\<close>

fun first_free :: "(nat \<Rightarrow> nat) \<Rightarrow> database \<Rightarrow> nat list \<Rightarrow> nat \<Rightarrow> string option \<times> nat" where
  "first_free rnd d [] pos = (None, pos)"
| "first_free rnd d (len # lens) pos =
     (let (candidate, pos') = generate_shortcode rnd pos len
      in if query_shorturl d candidate = None then (Some candidate, pos')
         else first_free rnd d lens pos')"

text \<open>First 6 characters, then 7, then 8, up to 6 attempts per length: 18 draws.\<close>

definition ATTEMPT_LENGTHS :: "nat list" where
  "ATTEMPT_LENGTHS = [6, 6, 6, 6, 6, 6, 7, 7, 7, 7, 7, 7, 8, 8, 8, 8, 8, 8]"

text \<open>
  When all 18 are occupied, one final attempt at length 10; when that candidate is occupied
  too, \<open>AllocationExhausted\<close>, a 500.
\<close>

definition allocate_spec :: "(nat \<Rightarrow> nat) \<Rightarrow> database \<Rightarrow> nat \<Rightarrow> (response + string) \<times> nat" where
  "allocate_spec rnd d pos =
     (case first_free rnd d ATTEMPT_LENGTHS pos of
        (Some c, p) \<Rightarrow> (Inr c, p)
      | (None, p) \<Rightarrow>
          (case first_free rnd d [10] p of
             (Some c, p') \<Rightarrow> (Inr c, p')
           | (None, p') \<Rightarrow> (Inl (ErrorJson 500 Could_not_generate_a_unique_shortcode), p')))"

text \<open>The candidates that successive draws of the given lengths produce.\<close>

fun draws :: "(nat \<Rightarrow> nat) \<Rightarrow> nat \<Rightarrow> nat list \<Rightarrow> string list" where
  "draws rnd pos [] = []"
| "draws rnd pos (len # lens) = fst (generate_shortcode rnd pos len) # draws rnd (pos + len) lens"

text \<open>
  A random source that always draws the first letter, stores in which the candidates it
  produces are taken (all four of them, or only the first), and a body with no shortcode.
\<close>

definition zero_env :: env where
  "zero_env = example_env\<lparr>rand := (\<lambda>i. 0)\<rparr>"

definition taken_row :: "string \<Rightarrow> ShortURL" where
  "taken_row sc = \<lparr>shortcode = sc, original_url = ''https://example.com'',
     created_at = \<lparr>ticks = 0, tzinfo = None\<rparr>,
     expiry = \<lparr>ticks = 0, tzinfo = None\<rparr>\<rparr>"

definition full_db :: database where
  "full_db = \<lparr>shorturls = [taken_row ''aaaaaa'', taken_row ''aaaaaaa'', taken_row ''aaaaaaaa'',
     taken_row ''aaaaaaaaaa''], clicks = []\<rparr>"

definition seeded_db :: database where
  "seeded_db = \<lparr>shorturls = [taken_row ''aaaaaa''], clicks = []\<rparr>"

definition auto_data :: "(string \<times> json) list" where
  "auto_data = [(''url'', JStr ''https://example.com'')]"

text \<open>The parsed body with its \<open>shortcode\<close> field taken out.\<close>

definition without_shortcode :: "(string \<times> json) list \<Rightarrow> (string \<times> json) list" where
  "without_shortcode data = filter (\<lambda>kv. fst kv \<noteq> ''shortcode'') data"

text \<open>The body \<open>{"url": "https://example.com", "shortcode": ""}\<close>.\<close>

definition empty_shortcode_data :: "(string \<times> json) list" where
  "empty_shortcode_data = [(''url'', JStr ''https://example.com''), (''shortcode'', JStr '''')]"

text \<open>
  The bodies \<open>{"url": "https://example.com", "shortcode": " abcd "}\<close> and
  \<open>{"url": "https://example.com", "shortcode": "ab"}\<close>.
\<close>

definition padded_data :: "(string \<times> json) list" where
  "padded_data = [(''url'', JStr ''https://example.com''), (''shortcode'', JStr '' abcd '')]"

definition short_data :: "(string \<times> json) list" where
  "short_data = [(''url'', JStr ''https://example.com''), (''shortcode'', JStr ''ab'')]"

section \<open>Properties\<close>

subsection \<open>Formatting of timestamps\<close>

lemmas datetime_consts = US_PER_DAY_def US_PER_HOUR_def US_PER_MINUTE_def US_PER_SECOND_def
  MAXORDINAL_def DAYS_BEFORE_MONTH_def DAYS_IN_MONTH_def

lemma digit_char_not_plus: "digit_char k \<noteq> CHR ''+''"
proof -
  have "''0123456789'' ! (k mod 10) \<in> set ''0123456789''"
    by (rule nth_mem) simp
  then show ?thesis unfolding digit_char_def by auto
qed

lemma plus_notin_str_nat: "CHR ''+'' \<notin> set (str_nat n)"
proof (induction n rule: str_nat.induct)
  case (1 n)
  show ?case
  proof (cases "n < 10")
    case True
    then show ?thesis
      using digit_char_not_plus [of n] by (subst str_nat.simps) auto
  next
    case False
    then show ?thesis
      using 1 digit_char_not_plus [of "n mod 10"] by (subst str_nat.simps) auto
  qed
qed

lemma plus_notin_fmt_0d: "CHR ''+'' \<notin> set (fmt_0d w n)"
  by (simp add: fmt_0d_def plus_notin_str_nat)

lemma plus_notin_isoformat_fields: "CHR ''+'' \<notin> set (isoformat_fields t)"
  by (simp add: isoformat_fields_def Let_def plus_notin_fmt_0d split: prod.splits)

lemma py_replace_offset_suffix:
  "CHR ''+'' \<notin> set xs \<Longrightarrow> py_replace (xs @ ''+00:00'') ''+00:00'' ''Z'' = xs @ ''Z''"
  by (induction xs) (auto simp: startswith_def)

lemma to_iso_z_eq: "to_iso_z dt = isoformat_fields (ticks dt) @ ''Z''"
  by (simp add: to_iso_z_def isoformat_def astimezone_utc_def replace_tzinfo_def
      py_replace_offset_suffix plus_notin_isoformat_fields)

lemma to_iso_z_0800: "to_iso_z \<lparr>ticks = 63900000000000000, tzinfo = t\<rparr> = ''2025-11-29T08:00:00Z''"
  by (simp add: to_iso_z_eq isoformat_fields_def ord2ymd_def datetime_consts fmt_0d_def
      str_nat.simps digit_char_def Let_def)

lemma to_iso_z_0830: "to_iso_z \<lparr>ticks = 63900001800000000, tzinfo = t\<rparr> = ''2025-11-29T08:30:00Z''"
  by (simp add: to_iso_z_eq isoformat_fields_def ord2ymd_def datetime_consts fmt_0d_def
      str_nat.simps digit_char_def Let_def)

subsection \<open>The shape of create_shorturl\<close>

lemma validate_url_JStr: "validate_url j \<Longrightarrow> \<exists>u. j = JStr u"
  by (cases j) (simp_all add: validate_url_def)

lemma resolve_shortcode_Inl:
  "resolve_shortcode e d data = Inl r \<Longrightarrow> \<exists>n m. r = ErrorJson n m"
  by (auto simp: resolve_shortcode_def allocate_shortcode_def Let_def
      split: option.splits if_splits prod.splits)

lemma insert_shorturl_cases:
  "(\<exists>n m. fst (insert_shorturl e d sc u v) = ErrorJson n m) \<or>
   (\<exists>dt. fst (insert_shorturl e d sc u v) =
      Created (rstrip_chars HOSTNAME ''/'' @ ''/'' @ sc) (to_iso_z dt))"
  by (auto simp: insert_shorturl_def unhandled_def Let_def split: sum.splits exn.splits)

lemma create_shorturl_valid:
  assumes "dict_get data ''url'' = Some (JStr u)" and "u \<noteq> []"
    and "validate_url (JStr u)" and "parse_validity data = Inr v"
  shows "create_shorturl e d (Some (JObj data)) =
           (case resolve_shortcode e d data of
              Inl r \<Rightarrow> (r, d) | Inr sc \<Rightarrow> insert_shorturl e d sc u v)"
proof -
  from assms(1) have "data \<noteq> []" by (auto simp: dict_get_def)
  with assms show ?thesis by (simp add: create_shorturl_def split: sum.splits)
qed

lemma create_shorturl_cases:
  "(\<exists>n m. create_shorturl e d body = (ErrorJson n m, d)) \<or>
   (\<exists>data u v sc. body = Some (JObj data) \<and> dict_get data ''url'' = Some (JStr u) \<and> u \<noteq> [] \<and>
      validate_url (JStr u) \<and> parse_validity data = Inr v \<and>
      resolve_shortcode e d data = Inr sc \<and>
      create_shorturl e d body = insert_shorturl e d sc u v)"
proof (cases body)
  case None
  then show ?thesis by (simp add: create_shorturl_def)
next
  case (Some j)
  show ?thesis
  proof (cases "\<exists>data u v. j = JObj data \<and> dict_get data ''url'' = Some (JStr u) \<and> u \<noteq> [] \<and>
      validate_url (JStr u) \<and> parse_validity data = Inr v")
    case True
    then obtain data u v where j: "j = JObj data"
      and u: "dict_get data ''url'' = Some (JStr u)" "u \<noteq> []" "validate_url (JStr u)"
      and v: "parse_validity data = Inr v" by blast
    show ?thesis
    proof (cases "resolve_shortcode e d data")
      case (Inl r)
      then show ?thesis
        using resolve_shortcode_Inl [OF Inl] create_shorturl_valid [OF u v, of e d] Some j
        by auto
    next
      case (Inr sc)
      then show ?thesis
        using create_shorturl_valid [OF u v, of e d] Some j u v by auto
    qed
  next
    case False
    have "\<exists>n m. create_shorturl e d body = (ErrorJson n m, d)"
    proof (cases j)
      case (JObj data)
      show ?thesis
      proof (cases "dict_get data ''url''")
        case None
        then show ?thesis using Some JObj by (simp add: create_shorturl_def)
      next
        case (Some url)
        show ?thesis
        proof (cases "truthy url \<and> validate_url url")
          case True
          then obtain u where "url = JStr u" using validate_url_JStr by blast
          with True False JObj Some have "\<exists>x. parse_validity data = Inl x"
            by (cases "parse_validity data") auto
          then show ?thesis
            using True \<open>body = Some j\<close> JObj Some by (auto simp: create_shorturl_def)
        next
          case False
          then show ?thesis
            using \<open>body = Some j\<close> JObj Some by (auto simp: create_shorturl_def)
        qed
      qed
    qed (use Some in \<open>auto simp: create_shorturl_def unhandled_def\<close>)
    then show ?thesis by blast
  qed
qed

lemma create_example:
  "create_shorturl example_env empty_db example_body =
     (Created ''http://localhost:5000/abcd1'' ''2025-11-29T08:30:00Z'', example_db)"
  by (simp add: create_shorturl_def example_env_def empty_db_def example_body_def example_db_def
      dict_get_def validate_url_def py_strip_def py_isspace_def startswith_def
      parse_validity_def dict_get_default_def resolve_shortcode_def SHORTCODE_RE_match_def
      alnum_4_64_def is_alnum_def query_shorturl_def insert_shorturl_def timedelta_minutes_def
      datetime_add_def datetime_in_range_def replace_tzinfo_def commit_shorturl_def
      stored_shorturl_def DateTime_column_def rstrip_chars_def HOSTNAME_def
      to_iso_z_0830 datetime_consts Let_def)

subsection \<open>C9: timestamps end in Z\<close>

lemma create_timestamps:
  "ts \<in> set (response_timestamps (fst (create_shorturl e d body))) \<Longrightarrow> \<exists>dt. ts = to_iso_z dt"
  using create_shorturl_cases [of e d body] insert_shorturl_cases
  by (metis empty_iff empty_set fst_conv response_timestamps.simps(1,2) set_ConsD)

lemma stats_timestamps:
  "ts \<in> set (response_timestamps (get_shorturl_stats d sc)) \<Longrightarrow> \<exists>dt. ts = to_iso_z dt"
  by (auto simp: get_shorturl_stats_def click_json_def Let_def split: option.splits)

lemma redirect_timestamps:
  "response_timestamps (fst (redirect_to_original e d sc)) = []"
  by (auto simp: redirect_to_original_def unhandled_def Let_def
      split: option.splits sum.splits bool.splits)

text \<open>
  C9. \<open>to_iso_z\<close> of every \<open>datetime\<close>, naive or aware, is the date and time fields
  followed by the one letter Z, and holds no plus sign at all; and every timestamp in a
  response of the three handlers (the creation expiry, createdAt and expiry of the
  statistics, the timestamps of clickData) is such a string: it ends in Z and never holds
  \<open>+00:00\<close>.
\<close>

theorem timestamps_end_in_Z:
  "(\<exists>s. to_iso_z dt = s @ ''Z'' \<and> CHR ''+'' \<notin> set s) \<and>
   (\<forall>ts \<in> set (response_timestamps (fst (create_shorturl e d body)) @
                response_timestamps (get_shorturl_stats d sc) @
                response_timestamps (fst (redirect_to_original e d sc))).
      (\<exists>s. ts = s @ ''Z'' \<and> CHR ''+'' \<notin> set s) \<and>
      \<not> (\<exists>xs ys. ts = xs @ ''+00:00'' @ ys))"
proof -
  have Z: "\<exists>s. to_iso_z x = s @ ''Z'' \<and> CHR ''+'' \<notin> set s" for x
    using to_iso_z_eq plus_notin_isoformat_fields by blast
  have no: "\<not> (\<exists>xs ys. to_iso_z x = xs @ ''+00:00'' @ ys)" for x
  proof
    assume "\<exists>xs ys. to_iso_z x = xs @ ''+00:00'' @ ys"
    then obtain xs ys where "to_iso_z x = xs @ ''+00:00'' @ ys" by blast
    then have "CHR ''+'' \<in> set (to_iso_z x)" by simp
    then show False
      using plus_notin_isoformat_fields [of "ticks x"] by (simp add: to_iso_z_eq)
  qed
  show ?thesis
    using Z no create_timestamps stats_timestamps redirect_timestamps
    by (metis Un_iff empty_iff list.set(1) set_append)
qed

theorem timestamps_end_in_Z_witness:
  "''2025-11-29T08:30:00Z'' \<in>
     set (response_timestamps (fst (create_shorturl example_env empty_db example_body)) @
          response_timestamps (get_shorturl_stats empty_db ''abcd1'') @
          response_timestamps (fst (redirect_to_original example_env empty_db ''abcd1''))) \<and>
   (\<exists>s. ''2025-11-29T08:30:00Z'' = s @ ''Z'' \<and> CHR ''+'' \<notin> set s) \<and>
   \<not> (\<exists>xs ys. ''2025-11-29T08:30:00Z'' = xs @ ''+00:00'' @ ys)"
proof -
  have mem: "''2025-11-29T08:30:00Z'' \<in>
     set (response_timestamps (fst (create_shorturl example_env empty_db example_body)) @
          response_timestamps (get_shorturl_stats empty_db ''abcd1'') @
          response_timestamps (fst (redirect_to_original example_env empty_db ''abcd1'')))"
    by (simp add: create_example)
  from timestamps_end_in_Z [of _ example_env empty_db example_body "''abcd1''"]
  have "\<forall>ts \<in> set (response_timestamps (fst (create_shorturl example_env empty_db example_body)) @
          response_timestamps (get_shorturl_stats empty_db ''abcd1'') @
          response_timestamps (fst (redirect_to_original example_env empty_db ''abcd1''))).
      (\<exists>s. ts = s @ ''Z'' \<and> CHR ''+'' \<notin> set s) \<and>
      \<not> (\<exists>xs ys. ts = xs @ ''+00:00'' @ ys)"
    by (rule conjunct2)
  with mem show ?thesis by blast
qed

subsection \<open>The store and the insert\<close>

lemma find_append_eq:
  "find P (xs @ ys) = (case find P xs of None \<Rightarrow> find P ys | Some x \<Rightarrow> Some x)"
  by (induction xs) auto

lemma query_shorturl_Some:
  "query_shorturl d sc = Some s \<Longrightarrow> s \<in> set (shorturls d) \<and> shortcode s = sc"
  by (auto simp: query_shorturl_def find_Some_iff)

lemma redirect_naive_expiry:
  "query_shorturl d sc = Some s \<Longrightarrow> tzinfo (expiry s) = None \<Longrightarrow>
   redirect_to_original e d sc = (ErrorJson 500 Internal_server_error, d)"
  by (simp add: redirect_to_original_def datetime_gt_def replace_tzinfo_def unhandled_def)

lemma commit_shorturl_rows:
  "commit_shorturl f d row = Inr d' \<Longrightarrow>
   shorturls d' = shorturls d @ [stored_shorturl row] \<and> clicks d' = clicks d \<and>
   query_shorturl d (shortcode row) = None"
  by (auto simp: commit_shorturl_def split: if_splits)

lemma concurrent_commits_rows:
  "\<exists>rows. shorturls (concurrent_commits rs d) = shorturls d @ rows \<and>
     clicks (concurrent_commits rs d) = clicks d \<and>
     (\<forall>r \<in> set rows. tzinfo (expiry r) = None \<and> tzinfo (created_at r) = None \<and>
        query_shorturl d (shortcode r) = None)"
proof (induction rs arbitrary: d)
  case Nil
  then show ?case by simp
next
  case (Cons r rs)
  show ?case
  proof (cases "commit_shorturl False d r")
    case (Inl x)
    then show ?thesis using Cons.IH [of d] by simp
  next
    case (Inr d')
    from commit_shorturl_rows [OF Inr]
    have d': "shorturls d' = shorturls d @ [stored_shorturl r]" "clicks d' = clicks d"
      "query_shorturl d (shortcode r) = None" by simp_all
    from Cons.IH [of d'] obtain rows where rows:
      "shorturls (concurrent_commits rs d') = shorturls d' @ rows"
      "clicks (concurrent_commits rs d') = clicks d'"
      "\<forall>r \<in> set rows. tzinfo (expiry r) = None \<and> tzinfo (created_at r) = None \<and>
        query_shorturl d' (shortcode r) = None" by blast
    have "query_shorturl d' sc = None \<Longrightarrow> query_shorturl d sc = None" for sc
      by (simp add: query_shorturl_def d' find_append_eq split: option.splits)
    with rows d' Inr show ?thesis
      by (intro exI [of _ "stored_shorturl r # rows"])
         (auto simp: stored_shorturl_def DateTime_column_def)
  qed
qed


lemma parse_validity_pos: "parse_validity data = Inr v \<Longrightarrow> 0 < v"
  by (auto simp: parse_validity_def split: sum.splits if_splits)

lemma parse_validity_default:
  "dict_get data ''validity'' = None \<Longrightarrow> parse_validity data = Inr 30"
  by (simp add: parse_validity_def dict_get_def dict_get_default_def)

lemma parse_validity_JInt:
  "dict_get data ''validity'' = Some (JInt n) \<Longrightarrow>
   parse_validity data = (if n \<le> 0 then Inl ValueError else Inr n)"
  by (simp add: parse_validity_def dict_get_def dict_get_default_def)

lemma insert_shorturl_in_range:
  assumes "0 < v" and "expiry_in_range e v"
  shows "insert_shorturl e d sc u v =
     (let d1 = concurrent_commits (concurrent e) d
      in if commit_fault e then (ErrorJson 500 Internal_server_error_creating_shortcode, d1)
         else if query_shorturl d1 sc \<noteq> None then (ErrorJson 409 Shortcode_collision_occurred, d1)
         else (Created (rstrip_chars HOSTNAME ''/'' @ ''/'' @ sc)
                 (to_iso_z \<lparr>ticks = utcnow e + nat v * US_PER_MINUTE, tzinfo = Some UTC\<rparr>),
               d1\<lparr>shorturls := shorturls d1 @ [new_row e sc u v]\<rparr>))"
proof -
  have td: "timedelta_minutes v = Inr (v * int US_PER_MINUTE)"
    using assms by (simp add: timedelta_minutes_def expiry_in_range_def)
  have n: "nat (int (utcnow e) + v * int US_PER_MINUTE) = utcnow e + nat v * US_PER_MINUTE"
    using assms(1) by (simp add: nat_add_distrib nat_mult_distrib)
  have "0 \<le> v * int US_PER_MINUTE" using assms(1) by simp
  then have nn: "\<not> int (utcnow e) + v * int US_PER_MINUTE < 0" by linarith
  have add: "datetime_add \<lparr>ticks = utcnow e, tzinfo = Some UTC\<rparr>
      (v * int US_PER_MINUTE) = Inr \<lparr>ticks = utcnow e + nat v * US_PER_MINUTE, tzinfo = Some UTC\<rparr>"
    using assms nn by (simp add: datetime_add_def replace_tzinfo_def expiry_in_range_def n Let_def)
  show ?thesis
    by (simp add: insert_shorturl_def td add Let_def commit_shorturl_def new_row_def
        stored_shorturl_def DateTime_column_def replace_tzinfo_def)
qed

lemma insert_shorturl_out_of_range:
  assumes "0 < v" and "\<not> expiry_in_range e v"
  shows "insert_shorturl e d sc u v = (ErrorJson 500 Internal_server_error, d)"
proof (cases "v div 1440 \<le> 999999999")
  case False
  then show ?thesis
    by (simp add: insert_shorturl_def timedelta_minutes_def unhandled_def)
next
  case True
  have td: "timedelta_minutes v = Inr (v * int US_PER_MINUTE)"
    using assms True by (simp add: timedelta_minutes_def)
  have n: "nat (int (utcnow e) + v * int US_PER_MINUTE) = utcnow e + nat v * US_PER_MINUTE"
    using assms(1) by (simp add: nat_add_distrib nat_mult_distrib)
  have "datetime_add \<lparr>ticks = utcnow e, tzinfo = Some UTC\<rparr>
      (v * int US_PER_MINUTE) = Inl OverflowError"
    using assms True by (simp add: datetime_add_def replace_tzinfo_def expiry_in_range_def n Let_def)
  then show ?thesis
    by (simp add: insert_shorturl_def td unhandled_def replace_tzinfo_def)
qed

lemma insert_shorturl_Created:
  assumes "0 < v" and "insert_shorturl e d sc u v = (Created l x, d')"
  shows "expiry_in_range e v \<and> \<not> commit_fault e \<and>
     query_shorturl (concurrent_commits (concurrent e) d) sc = None \<and>
     l = rstrip_chars HOSTNAME ''/'' @ ''/'' @ sc \<and>
     x = to_iso_z \<lparr>ticks = utcnow e + nat v * US_PER_MINUTE, tzinfo = Some UTC\<rparr> \<and>
     d' = (concurrent_commits (concurrent e) d)
            \<lparr>shorturls := shorturls (concurrent_commits (concurrent e) d) @ [new_row e sc u v]\<rparr>"
proof (cases "expiry_in_range e v")
  case False
  with assms insert_shorturl_out_of_range show ?thesis by simp
next
  case True
  with assms show ?thesis
    by (auto simp: insert_shorturl_in_range Let_def split: if_splits)
qed

lemma insert_shorturl_rows:
  assumes "0 < v"
  shows "\<exists>rows. shorturls (snd (insert_shorturl e d sc u v)) = shorturls d @ rows"
proof -
  obtain rows where rows: "shorturls (concurrent_commits (concurrent e) d) = shorturls d @ rows"
    using concurrent_commits_rows [of "concurrent e" d] by blast
  show ?thesis
  proof (cases "expiry_in_range e v")
    case True
    then show ?thesis
      using assms rows by (simp add: insert_shorturl_in_range Let_def)
  next
    case False
    then show ?thesis
      using assms by (simp add: insert_shorturl_out_of_range)
  qed
qed

lemma create_shorturl_rows:
  "\<exists>rows. shorturls (snd (create_shorturl e d body)) = shorturls d @ rows"
proof -
  consider (err) n m where "create_shorturl e d body = (ErrorJson n m, d)"
    | (ins) sc u v where "0 < v" "create_shorturl e d body = insert_shorturl e d sc u v"
    using create_shorturl_cases [of e d body] parse_validity_pos by blast
  then show ?thesis
  proof cases
    case err
    then show ?thesis by simp
  next
    case ins
    then show ?thesis using insert_shorturl_rows [of v e d sc u] by simp
  qed
qed

lemma create_keeps_existing:
  assumes "query_shorturl d sc = Some r"
  shows "query_shorturl (snd (create_shorturl e d body)) sc = Some r"
proof -
  obtain rows where "shorturls (snd (create_shorturl e d body)) = shorturls d @ rows"
    using create_shorturl_rows by blast
  with assms show ?thesis by (simp add: query_shorturl_def find_append_eq)
qed

subsection \<open>The expiry of a created link\<close>

text \<open>
  Whenever create_shorturl answers 201, the request body is a JSON object, the number
  \<open>v\<close> that \<open>int\<close> makes of its validity (30 when the field is absent, the field
  itself when it is an integer) is positive, and the row stored for the new link has
  \<open>expiry = created_at + v\<close> minutes exactly (a minute is 60000000 microseconds), hence
  \<open>expiry > created_at\<close>; the expiry of the response is that of the row.
\<close>

lemma created_row_expiry:
  assumes "create_shorturl e d body = (Created l x, d')"
  shows "\<exists>data v row. body = Some (JObj data) \<and> parse_validity data = Inr v \<and> 0 < v \<and>
      (dict_get data ''validity'' = None \<longrightarrow> v = 30) \<and>
      (\<forall>n. dict_get data ''validity'' = Some (JInt n) \<longrightarrow> v = n) \<and>
      shorturls d' = shorturls (concurrent_commits (concurrent e) d) @ [row] \<and>
      l = rstrip_chars HOSTNAME ''/'' @ ''/'' @ shortcode row \<and>
      ticks (created_at row) = utcnow e \<and>
      ticks (expiry row) = ticks (created_at row) + nat v * US_PER_MINUTE \<and>
      ticks (created_at row) < ticks (expiry row) \<and>
      x = to_iso_z (expiry row)"
proof -
  have "\<not> (\<exists>n m. create_shorturl e d body = (ErrorJson n m, d))"
    using assms by simp
  with create_shorturl_cases [of e d body]
  obtain data u v sc where body: "body = Some (JObj data)"
    and v: "parse_validity data = Inr v"
    and ins': "create_shorturl e d body = insert_shorturl e d sc u v"
    by blast
  have ins: "insert_shorturl e d sc u v = (Created l x, d')"
    using ins' assms by simp
  have pos: "0 < v" using v by (rule parse_validity_pos)
  note c = insert_shorturl_Created [OF pos ins]
  let ?row = "new_row e sc u v"
  have dflt: "dict_get data ''validity'' = None \<longrightarrow> v = 30"
    using v parse_validity_default [of data] by auto
  have given: "\<forall>n. dict_get data ''validity'' = Some (JInt n) \<longrightarrow> v = n"
    using v parse_validity_JInt [of data] by (auto split: if_splits)
  have "0 < nat v * US_PER_MINUTE" using pos by (simp add: US_PER_MINUTE_def)
  then have lt: "ticks (created_at ?row) < ticks (expiry ?row)"
    by (simp add: new_row_def)
  have rows: "shorturls d' = shorturls (concurrent_commits (concurrent e) d) @ [?row]"
    using c by simp
  have link: "l = rstrip_chars HOSTNAME ''/'' @ ''/'' @ shortcode ?row"
    using c by (simp add: new_row_def)
  have x: "x = to_iso_z (expiry ?row)"
    using c by (simp add: new_row_def to_iso_z_eq)
  have t: "ticks (created_at ?row) = utcnow e"
    "ticks (expiry ?row) = ticks (created_at ?row) + nat v * US_PER_MINUTE"
    by (simp_all add: new_row_def)
  show ?thesis
    apply (rule exI [of _ data], rule exI [of _ v], rule exI [of _ ?row])
    using body v pos dflt given rows link t lt x apply (intro conjI)
              apply assumption+
    done
qed

lemma created_row_expiry_example:
  "create_shorturl example_env empty_db example_body =
     (Created ''http://localhost:5000/abcd1'' ''2025-11-29T08:30:00Z'', example_db) \<and>
   (\<exists>data v row. example_body = Some (JObj data) \<and> parse_validity data = Inr v \<and> 0 < v \<and>
      (dict_get data ''validity'' = None \<longrightarrow> v = 30) \<and>
      (\<forall>n. dict_get data ''validity'' = Some (JInt n) \<longrightarrow> v = n) \<and>
      shorturls example_db = shorturls (concurrent_commits (concurrent example_env) empty_db) @ [row] \<and>
      ''http://localhost:5000/abcd1'' = rstrip_chars HOSTNAME ''/'' @ ''/'' @ shortcode row \<and>
      ticks (created_at row) = utcnow example_env \<and>
      ticks (expiry row) = ticks (created_at row) + nat v * US_PER_MINUTE \<and>
      ticks (created_at row) < ticks (expiry row) \<and>
      ''2025-11-29T08:30:00Z'' = to_iso_z (expiry row))"
  using created_row_expiry [OF create_example] create_example
  by (rule conjI [rotated])

subsection \<open>C3: a registered custom shortcode\<close>

lemma resolve_shortcode_custom:
  assumes "dict_get data ''shortcode'' = Some c" and "truthy c" and "py_str c = Some s"
    and "SHORTCODE_RE_match (py_strip s)"
  shows "resolve_shortcode e d data =
     (if query_shorturl d (py_strip s) \<noteq> None then Inl (ErrorJson 409 Shortcode_already_in_use)
      else Inr (py_strip s))"
  using assms by (simp add: resolve_shortcode_def Let_def)

text \<open>
  C3. A creation request that is valid otherwise and supplies a custom shortcode (as the
  handler reads it: converted by \<open>str\<close>, stripped, and matching the format) that is
  registered is answered 409 and the store is exactly what it was; when the shortcode is free
  at the existence check but a concurrent request has committed it before this request's
  commit, the uniqueness constraint refuses the insert, the answer is 409 again and the store
  is what the concurrent request left. No creation request ever changes the row that a
  registered shortcode maps to.
\<close>

theorem custom_shortcode_conflict:
  assumes "dict_get data ''url'' = Some (JStr u)" and "u \<noteq> []" and "validate_url (JStr u)"
    and "parse_validity data = Inr v"
    and "dict_get data ''shortcode'' = Some c" and "truthy c" and "py_str c = Some s"
    and "SHORTCODE_RE_match (py_strip s)"
  shows "(query_shorturl d (py_strip s) \<noteq> None \<longrightarrow>
            create_shorturl e d (Some (JObj data)) = (ErrorJson 409 Shortcode_already_in_use, d)) \<and>
         (query_shorturl d (py_strip s) = None \<and>
          query_shorturl (concurrent_commits (concurrent e) d) (py_strip s) \<noteq> None \<and>
          \<not> commit_fault e \<and> expiry_in_range e v \<longrightarrow>
            create_shorturl e d (Some (JObj data)) =
              (ErrorJson 409 Shortcode_collision_occurred, concurrent_commits (concurrent e) d)) \<and>
         (\<forall>sc r. query_shorturl d sc = Some r \<longrightarrow>
            query_shorturl (snd (create_shorturl e d (Some (JObj data)))) sc = Some r)"
proof (intro conjI impI allI)
  note cr = create_shorturl_valid [OF assms(1-4), of e d]
  note rs = resolve_shortcode_custom [OF assms(5-8), of e d]
  {
    assume "query_shorturl d (py_strip s) \<noteq> None"
    then show "create_shorturl e d (Some (JObj data)) = (ErrorJson 409 Shortcode_already_in_use, d)"
      using cr rs by simp
  }
  {
    assume a: "query_shorturl d (py_strip s) = None \<and>
          query_shorturl (concurrent_commits (concurrent e) d) (py_strip s) \<noteq> None \<and>
          \<not> commit_fault e \<and> expiry_in_range e v"
    have pos: "0 < v" using assms(4) by (rule parse_validity_pos)
    from a have "create_shorturl e d (Some (JObj data)) = insert_shorturl e d (py_strip s) u v"
      using cr rs by simp
    also have "\<dots> = (ErrorJson 409 Shortcode_collision_occurred, concurrent_commits (concurrent e) d)"
      using a pos by (simp add: insert_shorturl_in_range Let_def)
    finally show "create_shorturl e d (Some (JObj data)) =
              (ErrorJson 409 Shortcode_collision_occurred, concurrent_commits (concurrent e) d)" .
  }
  {
    fix sc r
    assume "query_shorturl d sc = Some r"
    then show "query_shorturl (snd (create_shorturl e d (Some (JObj data)))) sc = Some r"
      by (rule create_keeps_existing)
  }
qed

lemma example_data_facts:
  "dict_get example_data ''url'' = Some (JStr ''https://example.com'')"
  "validate_url (JStr ''https://example.com'')"
  "parse_validity example_data = Inr 30"
  "dict_get example_data ''shortcode'' = Some (JStr ''abcd1'')"
  "py_strip ''abcd1'' = ''abcd1''"
  "SHORTCODE_RE_match ''abcd1''"
  by (simp_all add: example_data_def dict_get_def validate_url_def py_strip_def py_isspace_def
      startswith_def parse_validity_def dict_get_default_def SHORTCODE_RE_match_def
      alnum_4_64_def is_alnum_def)

lemma example_env_in_range: "expiry_in_range example_env 30" "expiry_in_range racing_env 30"
  by (simp_all add: expiry_in_range_def example_env_def racing_env_def datetime_in_range_def
      datetime_consts)

lemma racing_commit:
  "concurrent_commits (concurrent racing_env) empty_db =
     \<lparr>shorturls = [\<lparr>shortcode = ''abcd1'', original_url = ''https://other.example'',
       created_at = \<lparr>ticks = 63900000000000000, tzinfo = None\<rparr>,
       expiry = \<lparr>ticks = 63900000600000000, tzinfo = None\<rparr>\<rparr>], clicks = []\<rparr>"
  by (simp add: racing_env_def example_env_def empty_db_def commit_shorturl_def
      query_shorturl_def stored_shorturl_def DateTime_column_def)

theorem custom_shortcode_conflict_witness:
  "query_shorturl example_db ''abcd1'' \<noteq> None \<and>
   create_shorturl example_env example_db (Some (JObj example_data)) =
     (ErrorJson 409 Shortcode_already_in_use, example_db) \<and>
   query_shorturl empty_db ''abcd1'' = None \<and>
   query_shorturl (concurrent_commits (concurrent racing_env) empty_db) ''abcd1'' \<noteq> None \<and>
   create_shorturl racing_env empty_db (Some (JObj example_data)) =
     (ErrorJson 409 Shortcode_collision_occurred,
      concurrent_commits (concurrent racing_env) empty_db) \<and>
   query_shorturl (snd (create_shorturl example_env example_db (Some (JObj example_data))))
     ''abcd1'' = query_shorturl example_db ''abcd1''"
proof -
  have s: "py_str (JStr ''abcd1'') = Some ''abcd1''" "truthy (JStr ''abcd1'')"
    "''https://example.com'' \<noteq> []" "SHORTCODE_RE_match (py_strip ''abcd1'')"
    by (simp_all add: example_data_facts)
  note th = custom_shortcode_conflict [OF example_data_facts(1) s(3) example_data_facts(2,3,4)
      s(2) s(1) s(4)]
  have q1: "query_shorturl example_db ''abcd1'' \<noteq> None"
    by (simp add: example_db_def query_shorturl_def)
  have q2: "query_shorturl empty_db ''abcd1'' = None"
    by (simp add: empty_db_def query_shorturl_def)
  have q3: "query_shorturl (concurrent_commits (concurrent racing_env) empty_db) ''abcd1'' \<noteq> None"
    by (simp add: racing_commit query_shorturl_def)
  have f: "\<not> commit_fault racing_env" by (simp add: racing_env_def example_env_def)
  from th [of example_db example_env] q1
  have c1: "create_shorturl example_env example_db (Some (JObj example_data)) =
     (ErrorJson 409 Shortcode_already_in_use, example_db)"
    by (simp add: example_data_facts)
  from th [of empty_db racing_env] q2 q3 f example_env_in_range(2)
  have c2: "create_shorturl racing_env empty_db (Some (JObj example_data)) =
     (ErrorJson 409 Shortcode_collision_occurred,
      concurrent_commits (concurrent racing_env) empty_db)"
    by (simp add: example_data_facts)
  show ?thesis using q1 q2 q3 c1 c2 by simp
qed

subsection \<open>C1 and C2: the redirect of a stored link\<close>

text \<open>
  The comparison \<open>now > s.expiry\<close> (line 244) has an aware \<open>now\<close> on the left and,
  on the right, the expiry as the \<open>DateTime\<close> column gives it back, which is naive.
  With an aware expiry the handler would do what lines 244-271 say (redirect_aware_expiry);
  with the stored one it raises \<open>TypeError\<close> before anything else happens, for every link
  that create_shorturl has stored (redirect_created_link).
\<close>

lemma redirect_fault_irrelevant:
  "fst (redirect_to_original (e\<lparr>commit_fault := f\<rparr>) d sc) = fst (redirect_to_original e d sc)"
  by (simp add: redirect_to_original_def Let_def split: option.splits sum.splits bool.splits)

lemma redirect_aware_expiry:
  assumes "query_shorturl d sc = Some s" and "tzinfo (expiry s) = Some UTC"
  shows "fst (redirect_to_original e d sc) =
     (if utcnow e > ticks (expiry s) then ErrorJson 410 Shortlink_expired
      else Redirect (original_url s))"
    and "utcnow e > ticks (expiry s) \<Longrightarrow> snd (redirect_to_original e d sc) = d"
  using assms
  by (simp_all add: redirect_to_original_def datetime_gt_def replace_tzinfo_def Let_def)

lemma redirect_created_link:
  assumes "create_shorturl e d body = (Created l x, d')"
  shows "\<exists>sc. l = rstrip_chars HOSTNAME ''/'' @ ''/'' @ sc \<and>
          (\<forall>e'. redirect_to_original e' d' sc = (ErrorJson 500 Internal_server_error, d'))"
proof -
  have "\<not> (\<exists>n m. create_shorturl e d body = (ErrorJson n m, d))"
    using assms by simp
  with create_shorturl_cases [of e d body]
  obtain data u v sc where v: "parse_validity data = Inr v"
    and ins': "create_shorturl e d body = insert_shorturl e d sc u v"
    by blast
  have ins: "insert_shorturl e d sc u v = (Created l x, d')"
    using ins' assms by simp
  note c = insert_shorturl_Created [OF parse_validity_pos [OF v] ins]
  have "query_shorturl d' sc = Some (new_row e sc u v)"
    using c by (simp add: query_shorturl_def find_append_eq new_row_def)
  moreover have "tzinfo (expiry (new_row e sc u v)) = None"
    by (simp add: new_row_def)
  ultimately have "redirect_to_original e' d' sc = (ErrorJson 500 Internal_server_error, d')" for e'
    by (rule redirect_naive_expiry)
  with c show ?thesis by blast
qed

lemma example_db_query:
  "query_shorturl example_db ''abcd1'' =
     Some \<lparr>shortcode = ''abcd1'', original_url = ''https://example.com'',
         created_at = \<lparr>ticks = 63900000000000000, tzinfo = None\<rparr>,
         expiry = \<lparr>ticks = 63900001800000000, tzinfo = None\<rparr>\<rparr>"
  by (simp add: example_db_def query_shorturl_def)

text \<open>
  C1. The link \<open>abcd1\<close> is created at 08:00:00 with the default validity, so that it
  expires at 08:30:00. A redirect request at 08:01:00, when the link is live, is answered 500
  and not 302, whether the commit of the click would succeed or fail; the store is unchanged.
\<close>

theorem redirect_live_link_500:
  "create_shorturl example_env empty_db example_body =
     (Created ''http://localhost:5000/abcd1'' ''2025-11-29T08:30:00Z'', example_db) \<and>
   redirect_to_original (example_env\<lparr>utcnow := 63900000060000000\<rparr>) example_db ''abcd1'' =
     (ErrorJson 500 Internal_server_error, example_db) \<and>
   redirect_to_original (example_env\<lparr>utcnow := 63900000060000000, commit_fault := True\<rparr>)
     example_db ''abcd1'' = (ErrorJson 500 Internal_server_error, example_db)"
  by (simp add: create_example redirect_naive_expiry [OF example_db_query])

theorem redirect_live_link_500_witness:
  "status (fst (redirect_to_original (example_env\<lparr>utcnow := 63900000060000000\<rparr>)
     example_db ''abcd1'')) = 500"
  using redirect_live_link_500 by simp

text \<open>
  C2. The same link at 08:31:00, after its expiry: the redirect request is answered 500 and
  not 410. No click is added.
\<close>

theorem redirect_expired_link_500:
  "create_shorturl example_env empty_db example_body =
     (Created ''http://localhost:5000/abcd1'' ''2025-11-29T08:30:00Z'', example_db) \<and>
   ticks (expiry (the (query_shorturl example_db ''abcd1''))) < 63900001860000000 \<and>
   redirect_to_original (example_env\<lparr>utcnow := 63900001860000000\<rparr>) example_db ''abcd1'' =
     (ErrorJson 500 Internal_server_error, example_db)"
  by (simp add: create_example example_db_query redirect_naive_expiry [OF example_db_query])

theorem redirect_expired_link_500_witness:
  "status (fst (redirect_to_original (example_env\<lparr>utcnow := 63900001860000000\<rparr>)
     example_db ''abcd1'')) = 500"
  using redirect_expired_link_500 by simp

lemma to_iso_z_0802: "to_iso_z \<lparr>ticks = 63900000120000000, tzinfo = t\<rparr> = ''2025-11-29T08:02:00Z''"
  by (simp add: to_iso_z_eq isoformat_fields_def ord2ymd_def datetime_consts fmt_0d_def
      str_nat.simps digit_char_def Let_def)

lemma floor_five_halves: "\<lfloor>(5::rat) / 2\<rfloor> = 2"
  by (rule floor_unique) simp_all

lemma invalid_validity_400:
  assumes "dict_get data ''url'' = Some url" and "truthy url" and "validate_url url"
    and "parse_validity data = Inl x"
  shows "create_shorturl e d (Some (JObj data)) = (ErrorJson 400 Validity_must_be_a_positive_integer, d)"
proof -
  from assms(1) have "data \<noteq> []" by (auto simp: dict_get_def)
  with assms show ?thesis by (simp add: create_shorturl_def)
qed

subsection \<open>The coercion of the validity\<close>

lemma ceiling_minus_five_halves: "\<lceil>- ((5::rat) / 2)\<rceil> = - 2"
  by (rule ceiling_unique) simp_all

lemmas int_of_str_defs = int_of_str_def int_strip_def int_isspace_def digits_value_def
  is_digit_def

lemma int_of_str_accepts:
  "int_of_str ''15'' = Inr 15"
  "int_of_str '' 1_5 '' = Inr 15"
  "int_of_str ''+007'' = Inr 7"
  "int_of_str ''-5'' = Inr (- 5)"
  "int_of_str [CHR 0xA0, CHR ''5'', CHR 0x85] = Inr 5"
  "int_of_str [CHR 0x09, CHR 0x0A, CHR ''7'', CHR 0x0D, CHR 0x0B, CHR 0x0C] = Inr 7"
  by (simp_all add: int_of_str_defs)

lemma int_of_str_refuses:
  "int_of_str [] = Inl ValueError"
  "int_of_str ''2.5'' = Inl ValueError"
  "int_of_str ''1__5'' = Inl ValueError"
  "int_of_str ''_15'' = Inl ValueError"
  "int_of_str ''15_'' = Inl ValueError"
  "int_of_str ''+ 5'' = Inl ValueError"
  "int_of_str ''--5'' = Inl ValueError"
  "int_of_str [CHR ''5'', CHR 0x1F] = Inl ValueError"
  "int_of_str [CHR 0x1C, CHR ''5''] = Inl ValueError"
  by (simp_all add: int_of_str_defs)

lemma py_int_examples:
  "py_int (JInt 7) = Inr 7"
  "py_int (JBool True) = Inr 1"
  "py_int (JBool False) = Inr 0"
  "py_int (JFloat (Finite (5 / 2))) = Inr 2"
  "py_int (JFloat (Finite (- (5 / 2)))) = Inr (- 2)"
  "py_int (JFloat NaN) = Inl ValueError"
  "py_int (JFloat PosInf) = Inl OverflowError"
  "py_int JNull = Inl TypeError"
  "py_int (JStr ''15'') = Inr 15"
  by (simp_all add: floor_five_halves ceiling_minus_five_halves int_of_str_accepts)

lemma parse_validity_examples:
  "parse_validity [(''validity'', JStr ''15'')] = Inr 15"
  "parse_validity [(''validity'', JStr [CHR ''5'', CHR 0x1F])] = Inl ValueError"
  "parse_validity [(''validity'', JInt 0)] = Inl ValueError"
  "parse_validity [(''validity'', JInt (- 3))] = Inl ValueError"
  "parse_validity [(''validity'', JFloat (Finite (1 / 2)))] = Inl ValueError"
  "parse_validity [(''validity'', JNull)] = Inl TypeError"
  "parse_validity [(''validity'', JFloat (Finite (5 / 2)))] = Inr 2"
  "parse_validity [] = Inr 30"
  by (simp_all add: parse_validity_def dict_get_default_def int_of_str_accepts
      int_of_str_refuses floor_five_halves)

subsection \<open>C6: a validity that is not an integer\<close>

text \<open>
  C6. A creation request with the fractional validity 2.5 is not refused: \<open>int(2.5)\<close>
  is 2, the response is 201 and the link is stored with an expiry two minutes after its
  creation.
\<close>

theorem fractional_validity_accepted:
  "create_shorturl example_env empty_db fractional_body =
     (Created ''http://localhost:5000/abcd1'' ''2025-11-29T08:02:00Z'',
      \<lparr>shorturls = [\<lparr>shortcode = ''abcd1'', original_url = ''https://example.com'',
         created_at = \<lparr>ticks = 63900000000000000, tzinfo = None\<rparr>,
         expiry = \<lparr>ticks = 63900000120000000, tzinfo = None\<rparr>\<rparr>],
       clicks = []\<rparr>)"
  by (simp add: create_shorturl_def example_env_def empty_db_def fractional_body_def
      dict_get_def validate_url_def py_strip_def py_isspace_def startswith_def
      parse_validity_def dict_get_default_def resolve_shortcode_def SHORTCODE_RE_match_def
      alnum_4_64_def is_alnum_def query_shorturl_def insert_shorturl_def timedelta_minutes_def
      datetime_add_def datetime_in_range_def replace_tzinfo_def commit_shorturl_def
      stored_shorturl_def DateTime_column_def rstrip_chars_def HOSTNAME_def
      to_iso_z_0802 floor_five_halves datetime_consts Let_def)

theorem fractional_validity_accepted_witness:
  "status (fst (create_shorturl example_env empty_db fractional_body)) = 201"
  using fractional_validity_accepted by simp

subsection \<open>C5: the expiry against the validity of the body\<close>

lemma create_fractional_body:
  "create_shorturl example_env empty_db fractional_body =
     (Created ''http://localhost:5000/abcd1'' ''2025-11-29T08:02:00Z'',
      \<lparr>shorturls = [\<lparr>shortcode = ''abcd1'', original_url = ''https://example.com'',
         created_at = \<lparr>ticks = 63900000000000000, tzinfo = None\<rparr>,
         expiry = \<lparr>ticks = 63900000120000000, tzinfo = None\<rparr>\<rparr>],
       clicks = []\<rparr>)"
  by (simp add: create_shorturl_def example_env_def empty_db_def fractional_body_def
      dict_get_def validate_url_def py_strip_def py_isspace_def startswith_def
      parse_validity_def dict_get_default_def resolve_shortcode_def SHORTCODE_RE_match_def
      alnum_4_64_def is_alnum_def query_shorturl_def insert_shorturl_def timedelta_minutes_def
      datetime_add_def datetime_in_range_def replace_tzinfo_def commit_shorturl_def
      stored_shorturl_def DateTime_column_def rstrip_chars_def HOSTNAME_def
      to_iso_z_0802 floor_five_halves datetime_consts Let_def)

text \<open>
  C5. The body asks for a validity of 2.5 minutes, which is 150000000 microseconds. The
  creation succeeds with 201, and the one row it stores expires 120000000 microseconds, two
  minutes, after its creation: the expiry is not the creation time plus the validity of the
  request body. (For a validity that is an integer, or absent, it is: created_row_expiry.)
\<close>

theorem fractional_validity_expiry:
  "fractional_body =
     Some (JObj [(''url'', JStr ''https://example.com''), (''validity'', JFloat (Finite (5 / 2))),
                 (''shortcode'', JStr ''abcd1'')]) \<and>
   status (fst (create_shorturl example_env empty_db fractional_body)) = 201 \<and>
   map (\<lambda>r. int (ticks (expiry r)) - int (ticks (created_at r)))
     (shorturls (snd (create_shorturl example_env empty_db fractional_body))) = [120000000] \<and>
   (5 / 2 :: rat) * of_nat US_PER_MINUTE = 150000000"
proof (intro conjI)
  show "fractional_body =
     Some (JObj [(''url'', JStr ''https://example.com''), (''validity'', JFloat (Finite (5 / 2))),
                 (''shortcode'', JStr ''abcd1'')])"
    by (simp add: fractional_body_def)
  show "status (fst (create_shorturl example_env empty_db fractional_body)) = 201"
    by (simp add: create_fractional_body)
  show "map (\<lambda>r. int (ticks (expiry r)) - int (ticks (created_at r)))
     (shorturls (snd (create_shorturl example_env empty_db fractional_body))) = [120000000]"
    by (simp add: create_fractional_body)
  show "(5 / 2 :: rat) * of_nat US_PER_MINUTE = 150000000"
    by (simp add: US_PER_MINUTE_def)
qed

theorem fractional_validity_expiry_witness:
  "shorturls (snd (create_shorturl example_env empty_db fractional_body)) \<noteq> []"
  using fractional_validity_expiry by auto

subsection \<open>C8: the statistics\<close>



lemma clicked_db_stats:
  "get_shorturl_stats clicked_db ''abcd1'' =
     Stats 2 ''https://example.com'' ''2025-11-29T08:00:00Z'' ''2025-11-29T08:30:00Z''
       [\<lparr>entry_timestamp = ''2025-11-29T08:00:00Z'', entry_referrer = None,
         entry_location = ''unknown'', entry_ip = Some ''10.0.0.1'', entry_user_agent = None\<rparr>,
        \<lparr>entry_timestamp = ''2025-11-29T08:02:00Z'', entry_referrer = None,
         entry_location = ''unknown'', entry_ip = Some ''10.0.0.2'', entry_user_agent = None\<rparr>]"
  by (simp add: get_shorturl_stats_def clicked_db_def example_db_def query_shorturl_def
      query_clicks_def click_json_def py_or_def to_iso_z_0800 to_iso_z_0802 to_iso_z_0830 Let_def)



subsection \<open>C4: the allocation of a generated shortcode\<close>

lemma generate_shortcode_snd [simp]: "snd (generate_shortcode rnd pos len) = pos + len"
  by (simp add: generate_shortcode_def)

lemma generate_shortcode_length [simp]: "length (fst (generate_shortcode rnd pos len)) = len"
  by (simp add: generate_shortcode_def)

lemma generate_shortcode_eq:
  "generate_shortcode rnd pos len = (c, p) \<Longrightarrow> p = pos + len \<and> c = fst (generate_shortcode rnd pos len)"
  by (auto simp: generate_shortcode_def)

lemma try_length_first_free:
  "try_length rnd d len n pos = first_free rnd d (replicate n len) pos"
  by (induction n arbitrary: pos) (auto simp: Let_def split: prod.splits)

lemma first_free_append:
  "first_free rnd d (xs @ ys) pos =
     (case first_free rnd d xs pos of
        (Some c, p) \<Rightarrow> (Some c, p) | (None, p) \<Rightarrow> first_free rnd d ys p)"
  by (induction xs arbitrary: pos) (auto simp: Let_def split: prod.splits)

lemma try_lengths_first_free:
  "try_lengths rnd d lens pos = first_free rnd d (concat (map (replicate 6) lens)) pos"
  by (induction lens arbitrary: pos)
     (auto simp: try_length_first_free first_free_append split: prod.splits option.splits)

lemma ATTEMPT_LENGTHS_eq: "replicate 6 6 @ replicate 6 7 @ replicate 6 8 = ATTEMPT_LENGTHS"
  by (simp add: ATTEMPT_LENGTHS_def numeral_eq_Suc)

lemma try_lengths_678:
  "try_lengths rnd d [6, 7, 8] pos = first_free rnd d ATTEMPT_LENGTHS pos"
  by (simp add: try_lengths_first_free ATTEMPT_LENGTHS_eq)

lemma allocate_shortcode_spec: "allocate_shortcode rnd d pos = allocate_spec rnd d pos"
  unfolding allocate_shortcode_def allocate_spec_def try_lengths_678
  by (auto simp: Let_def split: prod.splits option.splits)

lemma first_free_find:
  "fst (first_free rnd d lens pos) = find (\<lambda>c. query_shorturl d c = None) (draws rnd pos lens)"
  by (induction lens arbitrary: pos)
     (auto simp: Let_def split: prod.splits dest!: generate_shortcode_eq)

lemma first_free_pos:
  "snd (first_free rnd d lens pos) =
     pos + sum_list (take (Suc (length (takeWhile (\<lambda>c. query_shorturl d c \<noteq> None)
                                          (draws rnd pos lens)))) lens)"
proof (induction lens arbitrary: pos)
  case Nil
  then show ?case by simp
next
  case (Cons len lens)
  obtain c p where g: "generate_shortcode rnd pos len = (c, p)" by force
  then have p: "p = pos + len" using generate_shortcode_snd [of rnd pos len] by simp
  show ?case using Cons.IH [of p] g p by (simp add: Let_def)
qed

lemma draws_lengths: "map length (draws rnd pos lens) = lens"
  by (induction lens arbitrary: pos) auto

lemma first_free_exhausted:
  "(\<forall>c \<in> set (draws rnd pos lens). query_shorturl d c \<noteq> None) \<Longrightarrow>
   first_free rnd d lens pos = (None, pos + sum_list lens)"
  by (induction lens arbitrary: pos)
     (auto simp: Let_def add.assoc split: prod.splits dest!: generate_shortcode_eq)

lemma draws_append:
  "draws rnd pos (xs @ ys) = draws rnd pos xs @ draws rnd (pos + sum_list xs) ys"
  by (induction xs arbitrary: pos) (auto simp: add.assoc)

lemma allocate_exhausted:
  assumes "\<forall>c \<in> set (draws rnd pos (ATTEMPT_LENGTHS @ [10])). query_shorturl d c \<noteq> None"
  shows "allocate_shortcode rnd d pos =
           (Inl (ErrorJson 500 Could_not_generate_a_unique_shortcode), pos + 136)"
proof -
  have s: "sum_list ATTEMPT_LENGTHS = 126" by (simp add: ATTEMPT_LENGTHS_def)
  from assms have a: "\<forall>c \<in> set (draws rnd pos ATTEMPT_LENGTHS). query_shorturl d c \<noteq> None"
    and b: "\<forall>c \<in> set (draws rnd (pos + 126) [10]). query_shorturl d c \<noteq> None"
    by (auto simp: draws_append s)
  show ?thesis
    using first_free_exhausted [OF a] first_free_exhausted [OF b]
    by (simp add: allocate_shortcode_spec allocate_spec_def s)
qed

lemma resolve_shortcode_auto:
  "dict_get data ''shortcode'' = None \<or>
   (\<exists>c. dict_get data ''shortcode'' = Some c \<and> \<not> truthy c) \<Longrightarrow>
   resolve_shortcode e d data = fst (allocate_shortcode (rand e) d 0)"
  by (auto simp: resolve_shortcode_def)


text \<open>
  C4. The allocation of create_shorturl is the protocol of the specification: it makes the
  draws of lengths 6 (six times), 7 (six times) and 8 (six times) in this order, checks the
  store after each draw and returns the first candidate that is unoccupied, consuming no
  further draw; when all 18 are occupied it makes one draw of length 10 and returns it when
  unoccupied; when all 19 candidates are occupied it fails, 136 random characters having
  been drawn, and a request with no shortcode is answered 500 with the store unchanged.
\<close>

theorem allocation_protocol:
  "allocate_shortcode rnd d pos = allocate_spec rnd d pos \<and>
   fst (first_free rnd d lens pos) =
     find (\<lambda>c. query_shorturl d c = None) (draws rnd pos lens) \<and>
   snd (first_free rnd d lens pos) =
     pos + sum_list (take (Suc (length (takeWhile (\<lambda>c. query_shorturl d c \<noteq> None)
                                          (draws rnd pos lens)))) lens) \<and>
   map length (draws rnd pos lens) = lens \<and>
   (dict_get data ''shortcode'' = None \<longrightarrow>
      resolve_shortcode e d data = fst (allocate_spec (rand e) d 0)) \<and>
   ((\<forall>c \<in> set (draws rnd pos (ATTEMPT_LENGTHS @ [10])). query_shorturl d c \<noteq> None) \<longrightarrow>
      allocate_shortcode rnd d pos =
        (Inl (ErrorJson 500 Could_not_generate_a_unique_shortcode), pos + 136)) \<and>
   (dict_get data ''url'' = Some (JStr u) \<and> u \<noteq> [] \<and> validate_url (JStr u) \<and>
    parse_validity data = Inr v \<and> dict_get data ''shortcode'' = None \<and>
    (\<forall>c \<in> set (draws (rand e) 0 (ATTEMPT_LENGTHS @ [10])). query_shorturl d c \<noteq> None) \<longrightarrow>
      create_shorturl e d (Some (JObj data)) =
        (ErrorJson 500 Could_not_generate_a_unique_shortcode, d))"
proof (intro conjI impI)
  show "allocate_shortcode rnd d pos = allocate_spec rnd d pos"
    by (rule allocate_shortcode_spec)
  show "fst (first_free rnd d lens pos) =
     find (\<lambda>c. query_shorturl d c = None) (draws rnd pos lens)"
    by (rule first_free_find)
  show "snd (first_free rnd d lens pos) =
     pos + sum_list (take (Suc (length (takeWhile (\<lambda>c. query_shorturl d c \<noteq> None)
                                          (draws rnd pos lens)))) lens)"
    by (rule first_free_pos)
  show "map length (draws rnd pos lens) = lens"
    by (rule draws_lengths)
  show "resolve_shortcode e d data = fst (allocate_spec (rand e) d 0)"
    if "dict_get data ''shortcode'' = None"
    using that resolve_shortcode_auto [of data e d] by (simp add: allocate_shortcode_spec)
  show "allocate_shortcode rnd d pos =
        (Inl (ErrorJson 500 Could_not_generate_a_unique_shortcode), pos + 136)"
    if "\<forall>c \<in> set (draws rnd pos (ATTEMPT_LENGTHS @ [10])). query_shorturl d c \<noteq> None"
    using that by (rule allocate_exhausted)
  show "create_shorturl e d (Some (JObj data)) =
        (ErrorJson 500 Could_not_generate_a_unique_shortcode, d)"
    if a: "dict_get data ''url'' = Some (JStr u) \<and> u \<noteq> [] \<and> validate_url (JStr u) \<and>
      parse_validity data = Inr v \<and> dict_get data ''shortcode'' = None \<and>
      (\<forall>c \<in> set (draws (rand e) 0 (ATTEMPT_LENGTHS @ [10])). query_shorturl d c \<noteq> None)"
  proof -
    from a have ex: "\<forall>c \<in> set (draws (rand e) 0 (ATTEMPT_LENGTHS @ [10])). query_shorturl d c \<noteq> None"
      by blast
    have "resolve_shortcode e d data = Inl (ErrorJson 500 Could_not_generate_a_unique_shortcode)"
      using a resolve_shortcode_auto [of data e d] allocate_exhausted [OF ex] by simp
    moreover have "create_shorturl e d (Some (JObj data)) =
           (case resolve_shortcode e d data of
              Inl r \<Rightarrow> (r, d) | Inr sc \<Rightarrow> insert_shorturl e d sc u v)"
      using a by (intro create_shorturl_valid) simp_all
    ultimately show ?thesis by simp
  qed
qed

lemma full_db_exhausted:
  "\<forall>c \<in> set (draws (\<lambda>i. 0) 0 (ATTEMPT_LENGTHS @ [10])). query_shorturl full_db c \<noteq> None"
  by code_simp

lemma seeded_db_allocate: "allocate_spec (\<lambda>i. 0) seeded_db 0 = (Inr ''aaaaaaa'', 43)"
  by code_simp

lemma auto_data_facts:
  "dict_get auto_data ''url'' = Some (JStr ''https://example.com'')"
  "parse_validity auto_data = Inr 30"
  "dict_get auto_data ''shortcode'' = None"
  by (simp_all add: auto_data_def dict_get_def parse_validity_def dict_get_default_def)

theorem allocation_protocol_witness:
  "list_all (\<lambda>c. query_shorturl full_db c \<noteq> None)
     (draws (\<lambda>i. 0) 0 (ATTEMPT_LENGTHS @ [10])) \<and>
   dict_get auto_data ''shortcode'' = None \<and>
   allocate_shortcode (\<lambda>i. 0) full_db 0 =
     (Inl (ErrorJson 500 Could_not_generate_a_unique_shortcode), 136) \<and>
   create_shorturl zero_env full_db (Some (JObj auto_data)) =
     (ErrorJson 500 Could_not_generate_a_unique_shortcode, full_db) \<and>
   allocate_shortcode (\<lambda>i. 0) seeded_db 0 = (Inr ''aaaaaaa'', 43) \<and>
   resolve_shortcode zero_env seeded_db auto_data = Inr ''aaaaaaa''"
proof -
  have r: "rand zero_env = (\<lambda>i. 0)" by (simp add: zero_env_def example_env_def)
  have u: "''https://example.com'' \<noteq> []" by simp
  note full = allocation_protocol [of "\<lambda>i. 0" full_db 0 "[]" auto_data zero_env
      "''https://example.com''" 30]
  note seeded = allocation_protocol [of "\<lambda>i. 0" seeded_db 0 "[]" auto_data zero_env
      "''https://example.com''" 30]
  note c2' = conjunct2
  note full6 = full [THEN c2', THEN c2', THEN c2', THEN c2', THEN c2', THEN conjunct1]
  note full7 = full [THEN c2', THEN c2', THEN c2', THEN c2', THEN c2', THEN c2']
  note seeded1 = seeded [THEN conjunct1]
  note seeded5 = seeded [THEN c2', THEN c2', THEN c2', THEN c2', THEN conjunct1]
  have c1: "allocate_shortcode (\<lambda>i. 0) full_db 0 =
     (Inl (ErrorJson 500 Could_not_generate_a_unique_shortcode), 136)"
    using full6 [THEN mp, OF full_db_exhausted] by simp
  have pre: "dict_get auto_data ''url'' = Some (JStr ''https://example.com'') \<and>
    ''https://example.com'' \<noteq> [] \<and> validate_url (JStr ''https://example.com'') \<and>
    parse_validity auto_data = Inr 30 \<and> dict_get auto_data ''shortcode'' = None \<and>
    (\<forall>c \<in> set (draws (rand zero_env) 0 (ATTEMPT_LENGTHS @ [10])).
        query_shorturl full_db c \<noteq> None)"
    unfolding r
    by (intro conjI auto_data_facts example_data_facts(2) u full_db_exhausted)
  have c2: "create_shorturl zero_env full_db (Some (JObj auto_data)) =
     (ErrorJson 500 Could_not_generate_a_unique_shortcode, full_db)"
    using full7 [THEN mp, OF pre] .
  have c3: "allocate_shortcode (\<lambda>i. 0) seeded_db 0 = (Inr ''aaaaaaa'', 43)"
    using seeded1 by (simp only: seeded_db_allocate)
  have c4: "resolve_shortcode zero_env seeded_db auto_data = Inr ''aaaaaaa''"
    using seeded5 [THEN mp, OF auto_data_facts(3)] by (simp add: r seeded_db_allocate)
  have c0: "list_all (\<lambda>c. query_shorturl full_db c \<noteq> None)
     (draws (\<lambda>i. 0) 0 (ATTEMPT_LENGTHS @ [10]))"
    using full_db_exhausted by (simp only: list_all_iff)
  show ?thesis by (intro conjI c0 auto_data_facts(3) c1 c2 c3 c4)
qed

subsection \<open>C10: a shortcode field that is false\<close>

lemma map_of_filter_other:
  "k' \<noteq> k \<Longrightarrow> map_of (filter (\<lambda>kv. fst kv \<noteq> k) xs) k' = map_of xs k'"
  by (induction xs) auto

lemma map_of_filter_same: "map_of (filter (\<lambda>kv. fst kv \<noteq> k) xs) k = None"
  by (induction xs) auto

lemma allocate_shortcode_Inl:
  "fst (allocate_shortcode rnd d pos) = Inl r \<Longrightarrow>
   r = ErrorJson 500 Could_not_generate_a_unique_shortcode"
  by (auto simp: allocate_shortcode_def Let_def split: prod.splits option.splits if_splits)

lemma insert_shorturl_not_400: "fst (insert_shorturl e d sc u v) \<noteq> ErrorJson 400 m"
  by (auto simp: insert_shorturl_def unhandled_def Let_def split: sum.splits exn.splits)

lemma create_shorturl_dict:
  "data \<noteq> [] \<Longrightarrow>
   create_shorturl e d (Some (JObj data)) =
     (case dict_get data ''url'' of
        None \<Rightarrow> (ErrorJson 400 Invalid_or_missing_url, d)
      | Some url \<Rightarrow>
          if \<not> truthy url \<or> \<not> validate_url url
            then (ErrorJson 400 Invalid_or_missing_url, d)
          else
            (case parse_validity data of
               Inl x \<Rightarrow> (ErrorJson 400 Validity_must_be_a_positive_integer, d)
             | Inr validity \<Rightarrow>
                 (case resolve_shortcode e d data of
                    Inl r \<Rightarrow> (r, d)
                  | Inr sc \<Rightarrow>
                      insert_shorturl e d sc
                        (case url of JStr u \<Rightarrow> u | _ \<Rightarrow> []) validity)))"
  by (simp add: create_shorturl_def)

text \<open>
  C10. When the \<open>shortcode\<close> field is present but false (the empty string, 0,
  \<open>false\<close>, \<open>null\<close>, an empty list or object), the shortcode comes from the
  allocation of generated codes; the format check is never applied, so the answer is never
  the 400 of an invalid shortcode; and when the body has a \<open>url\<close> field the whole
  response and the store are those of the same request without the \<open>shortcode\<close>
  field.
\<close>

theorem falsy_shortcode_is_absent:
  assumes "dict_get data ''shortcode'' = Some c" and "\<not> truthy c"
  shows "resolve_shortcode e d data = fst (allocate_shortcode (rand e) d 0) \<and>
         resolve_shortcode e d data \<noteq> Inl (ErrorJson 400 Provided_shortcode_invalid) \<and>
         (dict_get data ''url'' \<noteq> None \<longrightarrow>
            create_shorturl e d (Some (JObj data)) =
            create_shorturl e d (Some (JObj (without_shortcode data)))) \<and>
         fst (create_shorturl e d (Some (JObj data))) \<noteq> ErrorJson 400 Provided_shortcode_invalid"
proof (intro conjI impI)
  show r: "resolve_shortcode e d data = fst (allocate_shortcode (rand e) d 0)"
    using assms by (intro resolve_shortcode_auto) blast
  show n: "resolve_shortcode e d data \<noteq> Inl (ErrorJson 400 Provided_shortcode_invalid)"
    using r allocate_shortcode_Inl [of "rand e" d 0] by auto
  show "create_shorturl e d (Some (JObj data)) =
            create_shorturl e d (Some (JObj (without_shortcode data)))"
    if u: "dict_get data ''url'' \<noteq> None"
  proof -
    have url: "dict_get (without_shortcode data) ''url'' = dict_get data ''url''"
      by (simp add: dict_get_def without_shortcode_def map_of_filter_other)
    have val: "parse_validity (without_shortcode data) = parse_validity data"
      by (simp add: parse_validity_def dict_get_default_def without_shortcode_def
          map_of_filter_other)
    have "dict_get (without_shortcode data) ''shortcode'' = None"
      by (simp add: dict_get_def without_shortcode_def map_of_filter_same)
    then have res: "resolve_shortcode e d (without_shortcode data) = resolve_shortcode e d data"
      using r resolve_shortcode_auto [of "without_shortcode data" e d] by simp
    have ne: "data \<noteq> []" "without_shortcode data \<noteq> []"
      using u url by (auto simp: dict_get_def)
    show ?thesis
      unfolding create_shorturl_dict [OF ne(1)] create_shorturl_dict [OF ne(2)] url val res ..
  qed
  show "fst (create_shorturl e d (Some (JObj data))) \<noteq> ErrorJson 400 Provided_shortcode_invalid"
    using n insert_shorturl_not_400
    by (auto simp: create_shorturl_def unhandled_def split: option.splits sum.splits)
qed

lemma empty_shortcode_allocate: "fst (allocate_shortcode (\<lambda>i. i) empty_db 0) = Inr ''abcdef''"
  by code_simp

lemma empty_shortcode_data_facts:
  "dict_get empty_shortcode_data ''url'' = Some (JStr ''https://example.com'')"
  "parse_validity empty_shortcode_data = Inr 30"
  "dict_get empty_shortcode_data ''shortcode'' = Some (JStr '''')"
  by (simp_all add: empty_shortcode_data_def dict_get_def parse_validity_def dict_get_default_def)

theorem falsy_shortcode_is_absent_witness:
  "dict_get empty_shortcode_data ''shortcode'' = Some (JStr '''') \<and> \<not> truthy (JStr '''') \<and>
   resolve_shortcode example_env empty_db empty_shortcode_data = Inr ''abcdef'' \<and>
   create_shorturl example_env empty_db (Some (JObj empty_shortcode_data)) =
     (Created ''http://localhost:5000/abcdef'' ''2025-11-29T08:30:00Z'',
      \<lparr>shorturls = [\<lparr>shortcode = ''abcdef'', original_url = ''https://example.com'',
         created_at = \<lparr>ticks = 63900000000000000, tzinfo = None\<rparr>,
         expiry = \<lparr>ticks = 63900001800000000, tzinfo = None\<rparr>\<rparr>],
       clicks = []\<rparr>)"
proof -
  have f: "\<not> truthy (JStr '''')" by simp
  note th = falsy_shortcode_is_absent [OF empty_shortcode_data_facts(3) f, of example_env empty_db]
  have r: "rand example_env = (\<lambda>i. i)" by (simp add: example_env_def)
  have res: "resolve_shortcode example_env empty_db empty_shortcode_data = Inr ''abcdef''"
    using th [THEN conjunct1] by (simp add: r empty_shortcode_allocate)
  have u: "''https://example.com'' \<noteq> []" by simp
  have "create_shorturl example_env empty_db (Some (JObj empty_shortcode_data)) =
      insert_shorturl example_env empty_db ''abcdef'' ''https://example.com'' 30"
    using create_shorturl_valid [OF empty_shortcode_data_facts(1) u example_data_facts(2)
        empty_shortcode_data_facts(2), of example_env empty_db]
    by (simp add: res)
  also have "\<dots> = (Created ''http://localhost:5000/abcdef'' ''2025-11-29T08:30:00Z'',
      \<lparr>shorturls = [\<lparr>shortcode = ''abcdef'', original_url = ''https://example.com'',
         created_at = \<lparr>ticks = 63900000000000000, tzinfo = None\<rparr>,
         expiry = \<lparr>ticks = 63900001800000000, tzinfo = None\<rparr>\<rparr>],
       clicks = []\<rparr>)"
    using insert_shorturl_in_range [OF _ example_env_in_range(1), of empty_db "''abcdef''"
        "''https://example.com''"]
    by (simp add: example_env_def empty_db_def query_shorturl_def new_row_def rstrip_chars_def
        HOSTNAME_def to_iso_z_0830 US_PER_MINUTE_def Let_def)
  finally show ?thesis using empty_shortcode_data_facts(3) f res by simp
qed

subsection \<open>C7: the format of a custom shortcode\<close>

lemma py_strip_last:
  assumes "py_strip s \<noteq> []"
  shows "\<not> py_isspace (last (py_strip s))"
proof -
  let ?ys = "dropWhile py_isspace (rev (dropWhile py_isspace s))"
  from assms have ne: "?ys \<noteq> []" by (simp add: py_strip_def)
  then have "\<not> py_isspace (hd ?ys)" by (rule hd_dropWhile)
  moreover have "last (py_strip s) = hd ?ys"
    using ne by (simp add: py_strip_def last_rev)
  ultimately show ?thesis by simp
qed

lemma SHORTCODE_RE_match_strip: "SHORTCODE_RE_match (py_strip s) = alnum_4_64 (py_strip s)"
proof -
  have "py_isspace (CHR 0x0A)" by (simp add: py_isspace_def)
  then have "\<not> (py_strip s \<noteq> [] \<and> last (py_strip s) = CHR 0x0A)"
    using py_strip_last [of s] by auto
  then show ?thesis by (auto simp: SHORTCODE_RE_match_def)
qed

lemma query_after_concurrent:
  "query_shorturl (concurrent_commits rs d) sc = None \<Longrightarrow> query_shorturl d sc = None"
proof -
  obtain rows where "shorturls (concurrent_commits rs d) = shorturls d @ rows"
    using concurrent_commits_rows [of rs d] by blast
  then show "query_shorturl (concurrent_commits rs d) sc = None \<Longrightarrow> query_shorturl d sc = None"
    by (simp add: query_shorturl_def find_append_eq split: option.splits)
qed

lemma resolve_shortcode_truthy:
  assumes "dict_get data ''shortcode'' = Some c" and "truthy c"
  shows "resolve_shortcode e d data =
     (case py_str c of
        None \<Rightarrow> Inl (ErrorJson 400 Provided_shortcode_invalid)
      | Some s \<Rightarrow>
          if \<not> alnum_4_64 (py_strip s) then Inl (ErrorJson 400 Provided_shortcode_invalid)
          else if query_shorturl d (py_strip s) \<noteq> None
            then Inl (ErrorJson 409 Shortcode_already_in_use)
          else Inr (py_strip s))"
  using assms
  by (simp add: resolve_shortcode_def SHORTCODE_RE_match_strip Let_def split: option.splits)

text \<open>
  C7, as stated, fails: the candidate \<open>" abcd "\<close>, with surrounding whitespace, does
  not match the shortcode format, and yet the request is answered 201; line 157 strips the
  candidate before line 158 checks it, and the link is created under \<open>abcd\<close>.
\<close>

theorem whitespace_shortcode_accepted:
  "\<not> SHORTCODE_RE_match '' abcd '' \<and>
   create_shorturl example_env empty_db (Some (JObj padded_data)) =
     (Created ''http://localhost:5000/abcd'' ''2025-11-29T08:30:00Z'',
      \<lparr>shorturls = [\<lparr>shortcode = ''abcd'', original_url = ''https://example.com'',
         created_at = \<lparr>ticks = 63900000000000000, tzinfo = None\<rparr>,
         expiry = \<lparr>ticks = 63900001800000000, tzinfo = None\<rparr>\<rparr>],
       clicks = []\<rparr>)"
  by (simp add: create_shorturl_def example_env_def empty_db_def padded_data_def
      dict_get_def validate_url_def py_strip_def py_isspace_def startswith_def
      parse_validity_def dict_get_default_def resolve_shortcode_def SHORTCODE_RE_match_def
      alnum_4_64_def is_alnum_def query_shorturl_def insert_shorturl_def timedelta_minutes_def
      datetime_add_def datetime_in_range_def replace_tzinfo_def commit_shorturl_def
      stored_shorturl_def DateTime_column_def rstrip_chars_def HOSTNAME_def
      to_iso_z_0830 datetime_consts Let_def)

text \<open>
  C7, amended. For a creation request that is valid otherwise and supplies a custom
  shortcode, the candidate is converted by \<open>str\<close> and stripped of surrounding
  whitespace first. When the stripped candidate is not made of 4 to 64 characters among
  A-Z, a-z, 0-9 (or the value is a float, a list or an object), the answer is 400 and the
  store is unchanged. When it is, and it is unregistered, and the store commits, the link is
  created with the stripped candidate as its shortcode. No other shortcode is ever given to
  the link of such a request.
\<close>

theorem custom_shortcode_format:
  assumes "dict_get data ''url'' = Some (JStr u)" and "u \<noteq> []" and "validate_url (JStr u)"
    and "parse_validity data = Inr v"
    and "dict_get data ''shortcode'' = Some c" and "truthy c"
  shows "(py_str c = None \<or> (\<exists>s. py_str c = Some s \<and> \<not> alnum_4_64 (py_strip s)) \<longrightarrow>
            create_shorturl e d (Some (JObj data)) =
              (ErrorJson 400 Provided_shortcode_invalid, d)) \<and>
         (\<forall>s. py_str c = Some s \<and> alnum_4_64 (py_strip s) \<and>
              query_shorturl (concurrent_commits (concurrent e) d) (py_strip s) = None \<and>
              \<not> commit_fault e \<and> expiry_in_range e v \<longrightarrow>
            create_shorturl e d (Some (JObj data)) =
              (Created (rstrip_chars HOSTNAME ''/'' @ ''/'' @ py_strip s)
                 (to_iso_z \<lparr>ticks = utcnow e + nat v * US_PER_MINUTE, tzinfo = Some UTC\<rparr>),
               (concurrent_commits (concurrent e) d)
                 \<lparr>shorturls := shorturls (concurrent_commits (concurrent e) d) @
                                 [new_row e (py_strip s) u v]\<rparr>)) \<and>
         (\<forall>l x d'. create_shorturl e d (Some (JObj data)) = (Created l x, d') \<longrightarrow>
            (\<exists>s. py_str c = Some s \<and> alnum_4_64 (py_strip s) \<and>
                 l = rstrip_chars HOSTNAME ''/'' @ ''/'' @ py_strip s \<and>
                 shortcode (last (shorturls d')) = py_strip s))"
proof (intro conjI impI allI)
  note cr = create_shorturl_valid [OF assms(1-4), of e d]
  note rs = resolve_shortcode_truthy [OF assms(5,6), of e d]
  have pos: "0 < v" using assms(4) by (rule parse_validity_pos)
  {
    assume "py_str c = None \<or> (\<exists>s. py_str c = Some s \<and> \<not> alnum_4_64 (py_strip s))"
    then have "resolve_shortcode e d data = Inl (ErrorJson 400 Provided_shortcode_invalid)"
      using rs by auto
    then show "create_shorturl e d (Some (JObj data)) =
              (ErrorJson 400 Provided_shortcode_invalid, d)"
      using cr by simp
  }
  {
    fix s
    assume a: "py_str c = Some s \<and> alnum_4_64 (py_strip s) \<and>
              query_shorturl (concurrent_commits (concurrent e) d) (py_strip s) = None \<and>
              \<not> commit_fault e \<and> expiry_in_range e v"
    then have "query_shorturl d (py_strip s) = None"
      using query_after_concurrent by blast
    with a have "resolve_shortcode e d data = Inr (py_strip s)"
      using rs by simp
    then have "create_shorturl e d (Some (JObj data)) = insert_shorturl e d (py_strip s) u v"
      using cr by simp
    also have "\<dots> = (Created (rstrip_chars HOSTNAME ''/'' @ ''/'' @ py_strip s)
                 (to_iso_z \<lparr>ticks = utcnow e + nat v * US_PER_MINUTE, tzinfo = Some UTC\<rparr>),
               (concurrent_commits (concurrent e) d)
                 \<lparr>shorturls := shorturls (concurrent_commits (concurrent e) d) @
                                 [new_row e (py_strip s) u v]\<rparr>)"
      using a pos by (simp add: insert_shorturl_in_range Let_def)
    finally show "create_shorturl e d (Some (JObj data)) =
              (Created (rstrip_chars HOSTNAME ''/'' @ ''/'' @ py_strip s)
                 (to_iso_z \<lparr>ticks = utcnow e + nat v * US_PER_MINUTE, tzinfo = Some UTC\<rparr>),
               (concurrent_commits (concurrent e) d)
                 \<lparr>shorturls := shorturls (concurrent_commits (concurrent e) d) @
                                 [new_row e (py_strip s) u v]\<rparr>)" .
  }
  {
    fix l x d'
    assume cre: "create_shorturl e d (Some (JObj data)) = (Created l x, d')"
    show "\<exists>s. py_str c = Some s \<and> alnum_4_64 (py_strip s) \<and>
                 l = rstrip_chars HOSTNAME ''/'' @ ''/'' @ py_strip s \<and>
                 shortcode (last (shorturls d')) = py_strip s"
    proof (cases "resolve_shortcode e d data")
      case (Inl r)
      then have "create_shorturl e d (Some (JObj data)) = (r, d)" using cr by simp
      moreover obtain n m where "r = ErrorJson n m"
        using resolve_shortcode_Inl [OF Inl] by blast
      ultimately show ?thesis using cre by simp
    next
      case (Inr sc)
      then have ins: "insert_shorturl e d sc u v = (Created l x, d')" using cr cre by simp
      note c = insert_shorturl_Created [OF pos ins]
      from Inr rs obtain s where s: "py_str c = Some s" "alnum_4_64 (py_strip s)" "sc = py_strip s"
        by (auto split: option.splits if_splits)
      have "shortcode (last (shorturls d')) = sc"
        using c by (simp add: new_row_def)
      with s c show ?thesis by simp
    qed
  }
qed


lemma padded_data_facts:
  "dict_get padded_data ''url'' = Some (JStr ''https://example.com'')"
  "parse_validity padded_data = Inr 30"
  "dict_get padded_data ''shortcode'' = Some (JStr '' abcd '')"
  "py_strip '' abcd '' = ''abcd''"
  "alnum_4_64 ''abcd''"
  by (simp_all add: padded_data_def dict_get_def parse_validity_def dict_get_default_def
      py_strip_def py_isspace_def alnum_4_64_def is_alnum_def)

lemma short_data_facts:
  "dict_get short_data ''url'' = Some (JStr ''https://example.com'')"
  "parse_validity short_data = Inr 30"
  "dict_get short_data ''shortcode'' = Some (JStr ''ab'')"
  "py_strip ''ab'' = ''ab''"
  "\<not> alnum_4_64 ''ab''"
  by (simp_all add: short_data_def dict_get_def parse_validity_def dict_get_default_def
      py_strip_def py_isspace_def alnum_4_64_def is_alnum_def)

theorem custom_shortcode_format_witness:
  "py_str (JStr ''ab'') = Some ''ab'' \<and> \<not> alnum_4_64 (py_strip ''ab'') \<and>
   create_shorturl example_env empty_db (Some (JObj short_data)) =
     (ErrorJson 400 Provided_shortcode_invalid, empty_db) \<and>
   py_str (JStr '' abcd '') = Some '' abcd '' \<and> alnum_4_64 (py_strip '' abcd '') \<and>
   fst (create_shorturl example_env empty_db (Some (JObj padded_data))) =
     Created ''http://localhost:5000/abcd'' ''2025-11-29T08:30:00Z''"
proof -
  have u: "''https://example.com'' \<noteq> []" by simp
  have t1: "truthy (JStr ''ab'')" and t2: "truthy (JStr '' abcd '')" by simp_all
  note short = custom_shortcode_format [OF short_data_facts(1) u example_data_facts(2)
      short_data_facts(2,3) t1, of example_env empty_db]
  note padded = custom_shortcode_format [OF padded_data_facts(1) u example_data_facts(2)
      padded_data_facts(2,3) t2, of example_env empty_db]
  have p1: "py_str (JStr ''ab'') = None \<or>
      (\<exists>s. py_str (JStr ''ab'') = Some s \<and> \<not> alnum_4_64 (py_strip s))"
    by (simp add: short_data_facts)
  have c1: "create_shorturl example_env empty_db (Some (JObj short_data)) =
     (ErrorJson 400 Provided_shortcode_invalid, empty_db)"
    using short [THEN conjunct1, THEN mp, OF p1] .
  have p2: "py_str (JStr '' abcd '') = Some '' abcd '' \<and> alnum_4_64 (py_strip '' abcd '') \<and>
      query_shorturl (concurrent_commits (concurrent example_env) empty_db)
        (py_strip '' abcd '') = None \<and>
      \<not> commit_fault example_env \<and> expiry_in_range example_env 30"
    by (simp add: padded_data_facts example_env_in_range)
       (simp add: example_env_def empty_db_def query_shorturl_def)
  have c2: "fst (create_shorturl example_env empty_db (Some (JObj padded_data))) =
     Created ''http://localhost:5000/abcd'' ''2025-11-29T08:30:00Z''"
    using padded [THEN conjunct2, THEN conjunct1, THEN spec, THEN mp, OF p2]
    by (simp add: padded_data_facts rstrip_chars_def HOSTNAME_def)
       (simp add: example_env_def US_PER_MINUTE_def to_iso_z_0830)
  show ?thesis
    using c1 c2 by (simp add: padded_data_facts short_data_facts)
qed

end
